theory Spec2Isabelle
  imports Main "HOL-Library.AList"
begin

section \<open>Python values, dictionaries and exceptions\<close>

text \<open>
  The values that travel through the logging facility: \<open>None\<close>, strings, integers,
  booleans, string-keyed dictionaries, and opaque objects. An opaque object \<open>PObj r\<close>
  stands for an instance of a plain class: it is not iterable, not a mapping and not
  JSON-serialisable; \<open>r\<close> is its \<open>repr\<close>. Floats, lists and tuples are left out.
\<close>

datatype pyval =
    PNone
  | PStr string
  | PInt int
  | PBool bool
  | PDict "(string \<times> pyval) list"
  | PObj string

text \<open>
  A \<open>dict\<close> is an association list in insertion order; its keys are distinct, as
  Python guarantees.
\<close>

type_synonym pydict = "(string \<times> pyval) list"

text \<open>
  A raised exception: its class name and message. \<open>Exc\<close> is an instance of a class
  derived from \<open>Exception\<close>; \<open>BaseExc\<close> is derived from \<open>BaseException\<close> only
  (\<open>asyncio.CancelledError\<close>, \<open>KeyboardInterrupt\<close>, \<open>SystemExit\<close>), which
  \<open>except Exception\<close> does not catch.
\<close>

datatype pyexc = Exc string string | BaseExc string string

text \<open>\<open>str(e)\<close> of an exception: its message.\<close>

fun str_exc :: "pyexc \<Rightarrow> string" where
  "str_exc (Exc c m) = m"
| "str_exc (BaseExc c m) = m"

definition TypeError :: "string \<Rightarrow> pyexc" where
  "TypeError msg = Exc ''TypeError'' msg"

definition ValueError :: "string \<Rightarrow> pyexc" where
  "ValueError msg = Exc ''ValueError'' msg"

definition KeyError :: "string \<Rightarrow> pyexc" where
  "KeyError msg = Exc ''KeyError'' msg"

definition LookupError :: "string \<Rightarrow> pyexc" where
  "LookupError msg = Exc ''LookupError'' msg"

definition OSError :: "string \<Rightarrow> pyexc" where
  "OSError msg = Exc ''OSError'' msg"

definition keys :: "pydict \<Rightarrow> string list" where
  "keys d = map fst d"

text \<open>\<open>d.update(e)\<close>: every item of \<open>e\<close>, in order, is stored into \<open>d\<close>; a key that
  \<open>d\<close> already has keeps its position and takes the new value.\<close>

definition dict_update :: "pydict \<Rightarrow> pydict \<Rightarrow> pydict" where
  "dict_update d e = fold (\<lambda>kv. AList.update (fst kv) (snd kv)) e d"

text \<open>
  \<open>d.update(v)\<close> for an arbitrary value: a mapping is merged; the empty string is an
  empty iterable; a non-empty string yields one-character items, which are not pairs;
  everything else is not iterable.
\<close>

fun py_update :: "pydict \<Rightarrow> pyval \<Rightarrow> pyexc + pydict" where
  "py_update d (PDict e) = Inr (dict_update d e)"
| "py_update d (PStr []) = Inr d"
| "py_update d (PStr (c # cs)) =
     Inl (ValueError ''dictionary update sequence element #0 has length 1; 2 is required'')"
| "py_update d v = Inl (TypeError ''object is not iterable'')"

section \<open>RequestContext\<close>

text \<open>
  The dataclass of \<open>utils/logger_with_elastic.py\<close>. Python does not enforce the
  annotations, so every field holds a value of any kind.
\<close>

record RequestContext =
  timestamp :: pyval
  request_id :: pyval
  user_id :: pyval
  service :: pyval
  environment :: pyval
  extra :: pyval

definition RequestContext_fields :: "string list" where
  "RequestContext_fields =
     [''timestamp'', ''request_id'', ''user_id'', ''service'', ''environment'', ''extra'']"

definition kwarg :: "pydict \<Rightarrow> string \<Rightarrow> pyval \<Rightarrow> pyval" where
  "kwarg kwargs k dflt = (case map_of kwargs k of None \<Rightarrow> dflt | Some v \<Rightarrow> v)"

text \<open>\<open>__post_init__\<close>: a \<open>None\<close> timestamp becomes the current UTC time, \<open>now\<close>.\<close>

definition post_init :: "string \<Rightarrow> RequestContext \<Rightarrow> RequestContext" where
  "post_init now c = (if timestamp c = PNone then c\<lparr>timestamp := PStr now\<rparr> else c)"

text \<open>
  The generated constructor, called with keyword arguments only: a keyword that is not
  a field raises \<open>TypeError\<close>; a field that is not given takes its default.
\<close>

definition RequestContext_init :: "string \<Rightarrow> pydict \<Rightarrow> pyexc + RequestContext" where
  "RequestContext_init now kwargs =
     (if \<not> list_all (\<lambda>k. k \<in> set RequestContext_fields) (keys kwargs)
      then Inl (TypeError ''__init__() got an unexpected keyword argument'')
      else Inr (post_init now
        \<lparr> timestamp = kwarg kwargs ''timestamp'' PNone,
          request_id = kwarg kwargs ''request_id'' (PStr ''-''),
          user_id = kwarg kwargs ''user_id'' (PStr ''-''),
          service = kwarg kwargs ''service'' (PStr ''-''),
          environment = kwarg kwargs ''environment'' (PStr ''development''),
          extra = kwarg kwargs ''extra'' PNone \<rparr>))"

text \<open>\<open>dataclasses.asdict\<close>: the fields in declaration order (the values of this
  model are copied unchanged).\<close>

definition asdict :: "RequestContext \<Rightarrow> pydict" where
  "asdict c =
     [(''timestamp'', timestamp c), (''request_id'', request_id c), (''user_id'', user_id c),
      (''service'', service c), (''environment'', environment c), (''extra'', extra c)]"

definition as_dict :: "RequestContext \<Rightarrow> pydict" where
  "as_dict c = filter (\<lambda>kv. snd kv \<noteq> PNone) (asdict c)"

section \<open>The context variable\<close>

text \<open>
  A \<open>ContextVar\<close> as one unit of work sees it: an optional default given at creation
  and the value of the current context, absent until \<open>set\<close> is called. \<open>get\<close> raises
  \<open>LookupError\<close> when there is neither.
\<close>

record ContextVar =
  cv_default :: "RequestContext option"
  cv_value :: "RequestContext option"

definition ContextVar_get :: "ContextVar \<Rightarrow> pyexc + RequestContext" where
  "ContextVar_get cv =
     (case cv_value cv of
        Some c \<Rightarrow> Inr c
      | None \<Rightarrow> (case cv_default cv of
                   Some d \<Rightarrow> Inr d
                 | None \<Rightarrow> Inl (LookupError ''request_context'')))"

definition ContextVar_set :: "ContextVar \<Rightarrow> RequestContext \<Rightarrow> ContextVar" where
  "ContextVar_set cv c = cv\<lparr>cv_value := Some c\<rparr>"

text \<open>
  The class attribute \<open>FastAPILogger._context_var\<close>, evaluated once when the class body
  runs, at time \<open>now0\<close>: \<open>ContextVar('request_context', default=RequestContext())\<close>.
\<close>

definition FastAPILogger_context_var :: "string \<Rightarrow> pyexc + ContextVar" where
  "FastAPILogger_context_var now0 =
     (case RequestContext_init now0 [] of
        Inl e \<Rightarrow> Inl e
      | Inr d \<Rightarrow> Inr \<lparr> cv_default = Some d, cv_value = None \<rparr>)"

section \<open>The facade object and set_context\<close>

record FastAPILogger =
  fl_name :: string
  fl_log_dir :: string
  fl_service_name :: string
  fl_environment :: string
  fl_elastic_config :: "pydict option"

text \<open>
  \<open>set_context(**kwargs)\<close> calls
  \<open>RequestContext(service=self.service_name, environment=self.environment, **kwargs)\<close>:
  a keyword given twice raises \<open>TypeError\<close> before the constructor runs. On success the
  new context is stored in the context variable; on failure the variable is unchanged.
\<close>

definition set_context ::
  "FastAPILogger \<Rightarrow> string \<Rightarrow> pydict \<Rightarrow> ContextVar \<Rightarrow> pyexc + ContextVar" where
  "set_context self now kwargs cv =
     (if ''service'' \<in> set (keys kwargs) \<or> ''environment'' \<in> set (keys kwargs)
      then Inl (TypeError ''got multiple values for keyword argument'')
      else (case RequestContext_init now
                   ((''service'', PStr (fl_service_name self)) #
                    (''environment'', PStr (fl_environment self)) # kwargs) of
              Inl e \<Rightarrow> Inl e
            | Inr context \<Rightarrow> Inr (ContextVar_set cv context)))"

text \<open>
  \<open>_get_log_args\<close>: the call-site \<open>extra\<close> (an empty dict when not given) is updated
  with the dictionary form of the ambient context.
\<close>

definition get_log_args :: "pydict option \<Rightarrow> ContextVar \<Rightarrow> pyexc + pydict" where
  "get_log_args extra_kw cv =
     (let extra0 = (case extra_kw of None \<Rightarrow> [] | Some d \<Rightarrow> d)
      in case ContextVar_get cv of
           Inl e \<Rightarrow> Inl e
         | Inr context \<Rightarrow> Inr (dict_update extra0 (as_dict context)))"

section \<open>Records, formatters and handlers of the logging library\<close>

datatype level = DEBUG | INFO | ERROR

fun levelno :: "level \<Rightarrow> nat" where
  "levelno DEBUG = 10"
| "levelno INFO = 20"
| "levelno ERROR = 40"

fun levelname :: "level \<Rightarrow> string" where
  "levelname DEBUG = ''DEBUG''"
| "levelname INFO = ''INFO''"
| "levelname ERROR = ''ERROR''"

text \<open>
  A \<open>LogRecord\<close>: the attributes the program reads, and \<open>r_attrs\<close>, the entries that
  \<open>makeRecord\<close> adds to the record's \<open>__dict__\<close> from \<open>extra\<close>. \<open>r_exc_info\<close> is
  \<open>None\<close> when no exception information was asked for, and otherwise what
  \<open>sys.exc_info()\<close> gave: the exception being handled, or nothing (the tuple of three
  \<open>None\<close>s, which is still true as a condition). \<open>r_args\<close> are the positional
  arguments of the log call.
\<close>

record LogRecord =
  r_name :: string
  r_level :: level
  r_msg :: string
  r_args :: "pyval list"
  r_exc_info :: "pyexc option option"
  r_attrs :: pydict

text \<open>The attributes every \<open>LogRecord\<close> has before \<open>extra\<close> is applied
  (Python 3.12).\<close>

definition LogRecord_builtin :: "string list" where
  "LogRecord_builtin =
     [''name'', ''msg'', ''args'', ''levelname'', ''levelno'', ''pathname'', ''filename'',
      ''module'', ''exc_info'', ''exc_text'', ''stack_info'', ''lineno'', ''funcName'',
      ''created'', ''msecs'', ''relativeCreated'', ''thread'', ''threadName'',
      ''processName'', ''process'', ''taskName'']"

text \<open>\<open>Logger.makeRecord\<close>: a key of \<open>extra\<close> that is \<open>message\<close>, \<open>asctime\<close> or
  an attribute of the record raises \<open>KeyError\<close>; otherwise every item becomes an
  attribute.\<close>

definition makeRecord ::
  "string \<Rightarrow> level \<Rightarrow> string \<Rightarrow> pyval list \<Rightarrow> pyexc option option \<Rightarrow> pydict \<Rightarrow>
   pyexc + LogRecord" where
  "makeRecord name lvl msg args exc_info extra_d =
     (if \<exists>k \<in> set (keys extra_d). k \<in> set [''message'', ''asctime''] \<or> k \<in> set LogRecord_builtin
      then Inl (KeyError ''Attempt to overwrite attribute in LogRecord'')
      else Inr \<lparr> r_name = name, r_level = lvl, r_msg = msg, r_args = args,
                 r_exc_info = exc_info, r_attrs = extra_d \<rparr>)"

text \<open>
  What the Python runtime supplies to one operation. The clock readings:
  \<open>datetime.utcnow().isoformat()\<close>, the \<open>asctime\<close> of a record, and
  \<open>utcnow().strftime('%Y.%m.%d')\<close>. And the \<open>%\<close> operator of strings:
  \<open>rt_percent msg args\<close> is the value of \<open>msg % record.args\<close> for a record made
  with the positional arguments \<open>args\<close> (a single non-empty dict among them is used
  as the mapping), or the class and the message of the exception that the operator
  raises (\<open>TypeError\<close>, \<open>ValueError\<close> or \<open>KeyError\<close>, each derived from
  \<open>Exception\<close>).
\<close>

record runtime =
  rt_utcnow :: string
  rt_asctime :: string
  rt_date :: string
  rt_percent :: "string \<Rightarrow> pyval list \<Rightarrow> (string \<times> string) + string"

text \<open>\<open>Formatter.formatException\<close>: the last line of the traceback (the stack frames
  are left out); for the tuple of three \<open>None\<close>s Python prints \<open>NoneType: None\<close>.\<close>

text \<open>\<open>LogRecord.getMessage\<close>: the message itself when the record has no positional
  arguments, and \<open>msg % args\<close> otherwise, which raises when the arguments do not fit
  the message.\<close>

definition getMessage :: "runtime \<Rightarrow> LogRecord \<Rightarrow> pyexc + string" where
  "getMessage rt r =
     (if r_args r = [] then Inr (r_msg r)
      else (case rt_percent rt (r_msg r) (r_args r) of
              Inl (c, m) \<Rightarrow> Inl (Exc c m)
            | Inr s \<Rightarrow> Inr s))"

fun formatException :: "pyexc option \<Rightarrow> string" where
  "formatException None = ''NoneType: None''"
| "formatException (Some (Exc c m)) = (if m = [] then c else c @ '': '' @ m)"
| "formatException (Some (BaseExc c m)) = (if m = [] then c else c @ '': '' @ m)"

subsection \<open>JSON serialisation\<close>

fun json_ok :: "pyval \<Rightarrow> bool" where
  "json_ok (PDict kvs) = list_all (\<lambda>kv. json_ok (snd kv)) kvs"
| "json_ok (PObj r) = False"
| "json_ok v = True"

text \<open>
  The text that \<open>json.dumps\<close> returns is represented by the value it denotes:
  \<open>json.loads\<close> gives that value back (\<open>None\<close> is \<open>null\<close>, a dict is an object).
  \<open>json.dumps\<close> is called without \<open>default=\<close>, so a value that is not serialisable
  raises \<open>TypeError\<close>.
\<close>

datatype json_text = JsonText pyval

definition json_dumps :: "pyval \<Rightarrow> pyexc + json_text" where
  "json_dumps v =
     (if json_ok v then Inr (JsonText v)
      else Inl (TypeError ''Object is not JSON serializable''))"

fun json_loads :: "json_text \<Rightarrow> pyval" where
  "json_loads (JsonText v) = v"

subsection \<open>What a sink receives\<close>

text \<open>
  \<open>LogLine\<close> is a line of the text format
  \<open>%(asctime)s - %(levelname)s - [SERVICE:%(service)s][ENV:%(environment)s][REQ:%(request_id)s][USER:%(user_id)s] - %(name)s - %(message)s\<close>,
  kept as the values substituted in that order, followed by the exception text when
  there is one. \<open>JsonLine\<close> is a line of JSON. \<open>Text\<close> and \<open>TextDict\<close> are what
  \<open>print\<close> writes: a string, and a string followed by the \<open>repr\<close> of a dict.
\<close>

datatype written =
    LogLine string string pyval pyval pyval pyval string string "string option"
  | JsonLine json_text
  | Text string
  | TextDict string pydict

datatype formatter = LineFormatter | JsonFormatter

text \<open>\<open>get_formatter()\<close>: the standard \<open>Formatter\<close> with the format string above. It
  calls \<open>getMessage\<close> first; a field that the record lacks raises \<open>ValueError\<close>.\<close>

definition attr :: "LogRecord \<Rightarrow> string \<Rightarrow> pyexc + pyval" where
  "attr r k =
     (case map_of (r_attrs r) k of
        None \<Rightarrow> Inl (ValueError ''Formatting field not found in record'')
      | Some v \<Rightarrow> Inr v)"

definition LineFormatter_format :: "runtime \<Rightarrow> LogRecord \<Rightarrow> pyexc + written" where
  "LineFormatter_format rt r =
     (case getMessage rt r of Inl e \<Rightarrow> Inl e | Inr message \<Rightarrow>
     (case attr r ''service'' of Inl e \<Rightarrow> Inl e | Inr sv \<Rightarrow>
     (case attr r ''environment'' of Inl e \<Rightarrow> Inl e | Inr ev \<Rightarrow>
     (case attr r ''request_id'' of Inl e \<Rightarrow> Inl e | Inr rv \<Rightarrow>
     (case attr r ''user_id'' of Inl e \<Rightarrow> Inl e | Inr uv \<Rightarrow>
        Inr (LogLine (rt_asctime rt) (levelname (r_level r)) sv ev rv uv (r_name r) message
               (map_option formatException (r_exc_info r))))))))"

text \<open>\<open>JsonFormatter.format\<close>: the dict display evaluates \<open>record.getMessage()\<close>,
  the record's \<open>extra\<close> attribute, when it has one, is merged, the exception text is
  stored, and \<open>json.dumps\<close> serialises the dict.\<close>

definition JsonFormatter_format :: "runtime \<Rightarrow> LogRecord \<Rightarrow> pyexc + written" where
  "JsonFormatter_format rt r =
     (case getMessage rt r of
        Inl e \<Rightarrow> Inl e
      | Inr message \<Rightarrow>
         (let log_data =
                [(''timestamp'', PStr (rt_utcnow rt)),
                 (''level'', PStr (levelname (r_level r))),
                 (''message'', PStr message),
                 (''logger'', PStr (r_name r))]
          in case (case map_of (r_attrs r) ''extra'' of
                     None \<Rightarrow> Inr log_data
                   | Some x \<Rightarrow> py_update log_data x) of
               Inl e \<Rightarrow> Inl e
             | Inr log_data1 \<Rightarrow>
                 (let log_data2 =
                        (case r_exc_info r of
                           None \<Rightarrow> log_data1
                         | Some ei \<Rightarrow>
                             AList.update ''exception'' (PStr (formatException ei)) log_data1)
                  in case json_dumps (PDict log_data2) of
                       Inl e \<Rightarrow> Inl e
                     | Inr s \<Rightarrow> Inr (JsonLine s))))"

fun Formatter_format :: "formatter \<Rightarrow> runtime \<Rightarrow> LogRecord \<Rightarrow> pyexc + written" where
  "Formatter_format LineFormatter rt r = LineFormatter_format rt r"
| "Formatter_format JsonFormatter rt r = JsonFormatter_format rt r"

section \<open>Handlers, loggers and the output of the process\<close>

datatype handler_kind =
    TimedRotatingFileHandler string
  | StreamHandler_stdout
  | ElasticsearchHandler string

text \<open>A handler: its kind (a file handler with its file name, the console handler, the
  remote handler with its index prefix), its minimum level and its formatter.\<close>

record handler =
  h_kind :: handler_kind
  h_level :: nat
  h_formatter :: formatter

text \<open>
  What the process has written: lines appended to files (with the file name), the
  standard output, the standard error, and the documents indexed in the remote store
  (with the index name). \<open>w_records\<close> is a history variable: every \<open>LogRecord\<close> that
  a logger created, in order. Rotation and failing writes are not modelled.
\<close>

record world =
  w_files :: "(string \<times> written) list"
  w_stdout :: "written list"
  w_stderr :: "string list"
  w_es_docs :: "(string \<times> pydict) list"
  w_records :: "LogRecord list"

text \<open>\<open>Handler.handleError\<close> prints the failure to the standard error stream and
  returns.\<close>

definition handleError :: "world \<Rightarrow> world" where
  "handleError w = w\<lparr>w_stderr := w_stderr w @ [''--- Logging error ---'']\<rparr>"

text \<open>
  \<open>Handler.handle\<close> calls \<open>emit\<close>. The file and console handlers format the record
  and write the line; any exception of the formatter is caught and passed to
  \<open>handleError\<close>. \<open>ElasticsearchHandler.emit\<close> is declared \<open>async def\<close>: the call
  only creates a coroutine object, which nothing awaits, so no statement of its body
  runs.
\<close>

definition Handler_handle :: "runtime \<Rightarrow> LogRecord \<Rightarrow> handler \<Rightarrow> world \<Rightarrow> world" where
  "Handler_handle rt r h w =
     (case h_kind h of
        TimedRotatingFileHandler filename \<Rightarrow>
          (case Formatter_format (h_formatter h) rt r of
             Inl e \<Rightarrow> handleError w
           | Inr line \<Rightarrow> w\<lparr>w_files := w_files w @ [(filename, line)]\<rparr>)
      | StreamHandler_stdout \<Rightarrow>
          (case Formatter_format (h_formatter h) rt r of
             Inl e \<Rightarrow> handleError w
           | Inr line \<Rightarrow> w\<lparr>w_stdout := w_stdout w @ [line]\<rparr>)
      | ElasticsearchHandler index_prefix \<Rightarrow> w)"

text \<open>
  \<open>Logger.callHandlers\<close>: each handler of the logger, in order, handles the record
  when the record's level is at least the handler's. The loggers above this one have
  no handlers; a logger without any handler falls back to the handler of last resort,
  which from WARNING upwards writes the message, and the exception text when there is
  one, to the standard error stream.
\<close>

fun callHandlers_loop :: "runtime \<Rightarrow> LogRecord \<Rightarrow> handler list \<Rightarrow> world \<Rightarrow> world" where
  "callHandlers_loop rt r [] w = w"
| "callHandlers_loop rt r (hdlr # hs) w =
     callHandlers_loop rt r hs
       (if levelno (r_level r) \<ge> h_level hdlr then Handler_handle rt r hdlr w else w)"

definition callHandlers :: "runtime \<Rightarrow> LogRecord \<Rightarrow> handler list \<Rightarrow> world \<Rightarrow> world" where
  "callHandlers rt r hs w =
     (if hs = []
      then (if levelno (r_level r) \<ge> 30
            then (case getMessage rt r of
                    Inl e \<Rightarrow> handleError w
                  | Inr message \<Rightarrow>
                      w\<lparr>w_stderr := w_stderr w @
                         [case r_exc_info r of
                            None \<Rightarrow> message
                          | Some ei \<Rightarrow> message @ [CHR 0x0A] @ formatException ei]\<rparr>)
            else w)
      else callHandlers_loop rt r hs w)"

record pylogger =
  lg_level :: nat
  lg_handlers :: "handler list"

text \<open>The loggers that exist, by name. \<open>logging.getLogger(name)\<close> returns the logger
  of that name, creating it (level NOTSET, no handlers) when there is none.\<close>

type_synonym registry = "string \<Rightarrow> pylogger option"

definition getLogger :: "registry \<Rightarrow> string \<Rightarrow> pylogger" where
  "getLogger reg name =
     (case reg name of Some l \<Rightarrow> l | None \<Rightarrow> \<lparr> lg_level = 0, lg_handlers = [] \<rparr>)"

text \<open>\<open>getEffectiveLevel\<close>: a logger at NOTSET takes the level of the root logger,
  WARNING.\<close>

definition getEffectiveLevel :: "pylogger \<Rightarrow> nat" where
  "getEffectiveLevel l = (if lg_level l = 0 then 30 else lg_level l)"

text \<open>
  \<open>Logger.debug/info/error\<close>: nothing happens below the effective level; otherwise
  \<open>_log\<close> makes the record and hands it to the handlers. \<open>args\<close> are the positional
  arguments, \<open>exc_info\<close> is the keyword argument (a flag), \<open>handling\<close> the exception
  that the caller is handling, which \<open>sys.exc_info()\<close> returns.
\<close>

definition Logger_log ::
  "runtime \<Rightarrow> string \<Rightarrow> pylogger \<Rightarrow> level \<Rightarrow> string \<Rightarrow> pyval list \<Rightarrow> bool \<Rightarrow>
   pyexc option \<Rightarrow> pydict \<Rightarrow> world \<Rightarrow> pyexc + world" where
  "Logger_log rt name l lvl msg args exc_info handling extra_d w =
     (if levelno lvl < getEffectiveLevel l then Inr w
      else (case makeRecord name lvl msg args (if exc_info then Some handling else None)
                   extra_d of
              Inl e \<Rightarrow> Inl e
            | Inr r \<Rightarrow>
                Inr (callHandlers rt r (lg_handlers l) (w\<lparr>w_records := w_records w @ [r]\<rparr>))))"

section \<open>FastAPILogger\<close>

text \<open>What the file system allows: creating a directory, opening a file for
  appending.\<close>

record filesystem =
  can_mkdir :: "string \<Rightarrow> bool"
  can_open :: "string \<Rightarrow> bool"

definition file_handler :: "string \<Rightarrow> handler" where
  "file_handler log_dir =
     \<lparr> h_kind = TimedRotatingFileHandler (log_dir @ ''/app.log''), h_level = 20,
       h_formatter = LineFormatter \<rparr>"

definition json_handler :: "string \<Rightarrow> handler" where
  "json_handler log_dir =
     \<lparr> h_kind = TimedRotatingFileHandler (log_dir @ ''/app.json.log''), h_level = 20,
       h_formatter = JsonFormatter \<rparr>"

definition console_handler :: handler where
  "console_handler =
     \<lparr> h_kind = StreamHandler_stdout, h_level = 10, h_formatter = LineFormatter \<rparr>"

text \<open>
  \<open>_configure_logger\<close>: the directory is made, the logger of the facade's name is
  fetched and set to DEBUG, and only a logger without handlers gets the three sinks.
  A directory that cannot be made or a file that cannot be opened raises \<open>OSError\<close>.
\<close>

definition configure_logger :: "filesystem \<Rightarrow> FastAPILogger \<Rightarrow> registry \<Rightarrow> pyexc + registry" where
  "configure_logger fs self reg =
     (if \<not> can_mkdir fs (fl_log_dir self) then Inl (OSError (fl_log_dir self))
      else
        (let logger = (getLogger reg (fl_name self))\<lparr>lg_level := 10\<rparr>
         in if lg_handlers logger = []
            then (if \<not> can_open fs (fl_log_dir self @ ''/app.log'')
                  then Inl (OSError (fl_log_dir self @ ''/app.log''))
                  else if \<not> can_open fs (fl_log_dir self @ ''/app.json.log'')
                  then Inl (OSError (fl_log_dir self @ ''/app.json.log''))
                  else Inr (reg(fl_name self \<mapsto>
                         logger\<lparr>lg_handlers :=
                           [file_handler (fl_log_dir self), json_handler (fl_log_dir self),
                            console_handler]\<rparr>)))
            else Inr (reg(fl_name self \<mapsto> logger))))"

text \<open>\<open>__init__\<close>: \<open>name or __name__\<close>, the fields, then \<open>_configure_logger\<close>.\<close>

definition FastAPILogger_init ::
  "filesystem \<Rightarrow> string option \<Rightarrow> string \<Rightarrow> pydict option \<Rightarrow> string \<Rightarrow> string \<Rightarrow> registry \<Rightarrow>
   pyexc + (FastAPILogger \<times> registry)" where
  "FastAPILogger_init fs name log_dir elastic_config service_name env reg =
     (let self = \<lparr> fl_name = (case name of
                                None \<Rightarrow> ''utils.logger_with_elastic''
                              | Some n \<Rightarrow> if n = [] then ''utils.logger_with_elastic'' else n),
                   fl_log_dir = log_dir, fl_service_name = service_name,
                   fl_environment = env, fl_elastic_config = elastic_config \<rparr>
      in case configure_logger fs self reg of
           Inl e \<Rightarrow> Inl e
         | Inr reg' \<Rightarrow> Inr (self, reg'))"

text \<open>The state the facade works on: the context variable, the loggers, the output.\<close>

record app_state =
  context_var :: ContextVar
  loggers :: registry
  world :: world

text \<open>
  \<open>_setup_elasticsearch\<close>: with a non-empty configuration a handler for the remote
  store (level NOTSET, index prefix \<open>fastapi-logs\<close>) is added to the logger; its
  constructor prints a line. The client's own constructor is taken to succeed.
\<close>

definition es_handler :: handler where
  "es_handler =
     \<lparr> h_kind = ElasticsearchHandler ''fastapi-logs'', h_level = 0,
       h_formatter = LineFormatter \<rparr>"

definition setup_elasticsearch :: "FastAPILogger \<Rightarrow> app_state \<Rightarrow> app_state" where
  "setup_elasticsearch self st =
     (case fl_elastic_config self of
        None \<Rightarrow> st
      | Some cfg \<Rightarrow>
          if cfg = [] then st
          else
            (let logger = getLogger (loggers st) (fl_name self)
             in st\<lparr> loggers := (loggers st)(fl_name self \<mapsto>
                       logger\<lparr>lg_handlers := lg_handlers logger @ [es_handler]\<rparr>),
                    world := (world st)\<lparr>w_stdout := w_stdout (world st) @
                       [Text ''ElasticsearchHandler initialized!'']\<rparr> \<rparr>))"

text \<open>
  \<open>log(level, message, *args, extra=..., exc_info=...)\<close> and the three methods that
  call it: the arguments are prepared by \<open>_get_log_args\<close> and passed to the logger's
  method of that level. An exception leaves the state as it was.
\<close>

definition log ::
  "FastAPILogger \<Rightarrow> runtime \<Rightarrow> level \<Rightarrow> string \<Rightarrow> pyval list \<Rightarrow> pydict option \<Rightarrow> bool \<Rightarrow>
   pyexc option \<Rightarrow> app_state \<Rightarrow> pyexc + app_state" where
  "log self rt lvl message args extra_kw exc_info handling st =
     (case get_log_args extra_kw (context_var st) of
        Inl e \<Rightarrow> Inl e
      | Inr extra_d \<Rightarrow>
          (case Logger_log rt (fl_name self) (getLogger (loggers st) (fl_name self)) lvl
                  message args exc_info handling extra_d (world st) of
             Inl e \<Rightarrow> Inl e
           | Inr w \<Rightarrow> Inr (st\<lparr>world := w\<rparr>)))"

definition info ::
  "FastAPILogger \<Rightarrow> runtime \<Rightarrow> string \<Rightarrow> pyval list \<Rightarrow> pydict option \<Rightarrow> bool \<Rightarrow>
   pyexc option \<Rightarrow> app_state \<Rightarrow> pyexc + app_state" where
  "info self rt message args extra_kw exc_info handling st =
     log self rt INFO message args extra_kw exc_info handling st"

definition error ::
  "FastAPILogger \<Rightarrow> runtime \<Rightarrow> string \<Rightarrow> pyval list \<Rightarrow> pydict option \<Rightarrow> bool \<Rightarrow>
   pyexc option \<Rightarrow> app_state \<Rightarrow> pyexc + app_state" where
  "error self rt message args extra_kw exc_info handling st =
     log self rt ERROR message args extra_kw exc_info handling st"

definition debug ::
  "FastAPILogger \<Rightarrow> runtime \<Rightarrow> string \<Rightarrow> pyval list \<Rightarrow> pydict option \<Rightarrow> bool \<Rightarrow>
   pyexc option \<Rightarrow> app_state \<Rightarrow> pyexc + app_state" where
  "debug self rt message args extra_kw exc_info handling st =
     log self rt DEBUG message args extra_kw exc_info handling st"

section \<open>The body of ElasticsearchHandler.emit\<close>

text \<open>
  What the coroutine of \<open>emit\<close> does when something drives it. \<open>es_index\<close> is the
  remote store: \<open>es_client.index(index=..., document=...)\<close> either succeeds or raises.
  The dict display evaluates \<open>record.getMessage()\<close>, and unpacking
  \<open>**record.__dict__.get('extra', {})\<close> needs a mapping. The whole body is inside
  \<open>try\<close>, and \<open>except Exception\<close> prints the error and writes it to the standard
  error stream.
\<close>

definition ElasticsearchHandler_emit ::
  "string \<Rightarrow> runtime \<Rightarrow> (string \<Rightarrow> pydict \<Rightarrow> pyexc option) \<Rightarrow> LogRecord \<Rightarrow> world \<Rightarrow>
   pyexc + world" where
  "ElasticsearchHandler_emit index_prefix rt es_index r w =
     (let attempt =
        (case getMessage rt r of
           Inl e \<Rightarrow> (Some e, w)
         | Inr message \<Rightarrow>
        (case (case map_of (r_attrs r) ''extra'' of
                 None \<Rightarrow> Inr []
               | Some (PDict e) \<Rightarrow> Inr e
               | Some v \<Rightarrow> Inl (TypeError ''object is not a mapping'')) of
           Inl e \<Rightarrow> (Some e, w)
         | Inr ex \<Rightarrow>
            (let log_entry =
                   dict_update
                     [(''timestamp'', PStr (rt_utcnow rt)),
                      (''level'', PStr (levelname (r_level r))),
                      (''message'', PStr message)] ex;
                 index_name = index_prefix @ ''-'' @ rt_date rt;
                 w1 = w\<lparr>w_stdout := w_stdout w @
                        [Text (''Attempting to send log to Elasticsearch: '' @ index_name),
                         TextDict ''Log entry: '' log_entry]\<rparr>
             in case es_index index_name log_entry of
                  Some e \<Rightarrow> (Some e, w1)
                | None \<Rightarrow>
                    (None,
                     w1\<lparr>w_es_docs := w_es_docs w1 @ [(index_name, log_entry)],
                        w_stdout := w_stdout w1 @
                          [Text ''Log successfully sent to Elasticsearch'']\<rparr>))))
      in case attempt of
           (None, w') \<Rightarrow> Inr w'
         | (Some (Exc c m), w') \<Rightarrow>
             Inr (w'\<lparr>w_stdout := w_stdout w' @
                        [Text (''Detailed error in sending log to Elasticsearch: '' @ m)],
                      w_stderr := w_stderr w' @
                        [''Error sending log to Elasticsearch: '' @ m @ [CHR 0x0A]]\<rparr>)
         | (Some (BaseExc c m), w') \<Rightarrow> Inl (BaseExc c m))"

section \<open>The request boundary hook\<close>

record request =
  rq_method :: string
  rq_path :: string

definition digit_char :: "nat \<Rightarrow> char" where
  "digit_char d = char_of (48 + d)"

text \<open>\<open>str\<close> of a status code.\<close>

function str_nat :: "nat \<Rightarrow> string" where
  "str_nat n = (if n < 10 then [digit_char n] else str_nat (n div 10) @ [digit_char (n mod 10)])"
  by pat_completeness auto
termination
  by (relation "measure id") auto

declare str_nat.simps [simp del]

text \<open>
  The \<open>except Exception\<close> clause of the hook: an exception derived from \<open>Exception\<close>
  is logged at ERROR with \<open>exc_info=True\<close> and raised again by the bare \<open>raise\<close>;
  any other exception passes the clause untouched. Should the logging call itself
  raise, that exception leaves the clause instead.
\<close>

definition except_clause ::
  "FastAPILogger \<Rightarrow> runtime \<Rightarrow> request \<Rightarrow> pyexc \<Rightarrow> app_state \<Rightarrow> (pyexc + nat) \<times> app_state" where
  "except_clause self rt rq e st =
     (case e of
        BaseExc c m \<Rightarrow> (Inl e, st)
      | Exc c m \<Rightarrow>
          (case error self rt (''Request failed - '' @ rq_method rq @ '' '' @ rq_path rq)
                  [] None True (Some e) st of
             Inl e2 \<Rightarrow> (Inl e2, st)
           | Inr st' \<Rightarrow> (Inl e, st')))"

text \<open>
  \<open>logging_middleware(request, call_next)\<close>. \<open>rid\<close> is \<open>str(uuid.uuid4())[:8]\<close>.
  \<open>call_next\<close> runs the rest of the application: it returns the status code of the
  response or raises, and may write output of its own; it leaves the loggers and the
  hook's context as they are. The result is the status code of the returned response
  or the exception that leaves the hook, with the final state.
\<close>

definition logging_middleware ::
  "FastAPILogger \<Rightarrow> runtime \<Rightarrow> string \<Rightarrow> request \<Rightarrow> (world \<Rightarrow> (pyexc + nat) \<times> world) \<Rightarrow>
   app_state \<Rightarrow> (pyexc + nat) \<times> app_state" where
  "logging_middleware self rt rid rq call_next st =
     (case set_context self (rt_utcnow rt)
             [(''request_id'', PStr rid),
              (''extra'', PDict [(''path'', PStr (rq_path rq)),
                                 (''method'', PStr (rq_method rq))])]
             (context_var st) of
        Inl e \<Rightarrow> (Inl e, st)
      | Inr cv1 \<Rightarrow>
         (let st1 = st\<lparr>context_var := cv1\<rparr>
          in case info self rt (''Request started - '' @ rq_method rq @ '' '' @ rq_path rq)
                    [] None False None st1 of
               Inl e \<Rightarrow> except_clause self rt rq e st1
             | Inr st2 \<Rightarrow>
                (case call_next (world st2) of
                   (Inl e, w3) \<Rightarrow> except_clause self rt rq e (st2\<lparr>world := w3\<rparr>)
                 | (Inr status_code, w3) \<Rightarrow>
                    (let st3 = st2\<lparr>world := w3\<rparr>
                     in case set_context self (rt_utcnow rt)
                               [(''request_id'', PStr rid),
                                (''extra'', PDict [(''path'', PStr (rq_path rq)),
                                                   (''method'', PStr (rq_method rq)),
                                                   (''status_code'', PInt (int status_code))])]
                               (context_var st3) of
                          Inl e \<Rightarrow> except_clause self rt rq e st3
                        | Inr cv4 \<Rightarrow>
                           (let st4 = st3\<lparr>context_var := cv4\<rparr>
                            in case info self rt
                                      (''Request completed - '' @ rq_method rq @ '' '' @
                                         rq_path rq @ ''- Status: '' @ str_nat status_code)
                                      [] None False None st4 of
                                 Inl e \<Rightarrow> except_clause self rt rq e st4
                               | Inr st5 \<Rightarrow> (Inr status_code, st5))))))"

section \<open>Properties\<close>

subsection \<open>Dictionaries\<close>

lemma map_of_dict_update_distinct:
  "distinct (map fst e) \<Longrightarrow> map_of (dict_update d e) = map_of d ++ map_of e"
  unfolding dict_update_def
proof (induction e arbitrary: d)
  case Nil
  show ?case by simp
next
  case (Cons x e)
  from Cons.prems have notin: "map_of e (fst x) = None"
    by (simp add: map_of_eq_None_iff)
  from Cons.prems have "distinct (map fst e)" by simp
  then have "map_of (fold (\<lambda>kv. AList.update (fst kv) (snd kv)) e (AList.update (fst x) (snd x) d))
      = map_of (AList.update (fst x) (snd x) d) ++ map_of e"
    by (rule Cons.IH)
  then show ?case using notin
    by (cases x) (auto simp: AList.update_conv' fun_eq_iff map_add_def split: option.splits)
qed

lemma distinct_keys_as_dict: "distinct (map fst (as_dict c))"
  by (simp add: as_dict_def asdict_def distinct_map_filter)

subsection \<open>Precedence of the merged extra\<close>

text \<open>
  C1, as the code has it: \<open>_get_log_args\<close> updates the call-site \<open>extra\<close> with the
  dictionary form of the ambient context, so for every key that the context defines
  the merged mapping holds the value of the context, whatever the call site gave for
  it (the context wins on a collision); a key that the context does not define keeps
  the value of the call site.
\<close>

theorem get_log_args_context_wins:
  assumes "ContextVar_get cv = Inr context"
  shows "\<exists>m. get_log_args extra_kw cv = Inr m \<and>
           (\<forall>k \<in> set (keys (as_dict context)). map_of m k = map_of (as_dict context) k) \<and>
           (\<forall>k. k \<notin> set (keys (as_dict context)) \<longrightarrow>
                  map_of m k = map_of (case extra_kw of None \<Rightarrow> [] | Some d \<Rightarrow> d) k)"
proof -
  let ?e0 = "case extra_kw of None \<Rightarrow> [] | Some d \<Rightarrow> d"
  let ?m = "dict_update ?e0 (as_dict context)"
  have m: "map_of ?m = map_of ?e0 ++ map_of (as_dict context)"
    by (rule map_of_dict_update_distinct [OF distinct_keys_as_dict])
  have res: "get_log_args extra_kw cv = Inr ?m"
    using assms by (simp add: get_log_args_def)
  have win: "\<forall>k \<in> set (keys (as_dict context)). map_of ?m k = map_of (as_dict context) k"
  proof
    fix k assume "k \<in> set (keys (as_dict context))"
    then have "map_of (as_dict context) k \<noteq> None"
      by (simp add: keys_def map_of_eq_None_iff)
    then obtain v where "map_of (as_dict context) k = Some v"
      by blast
    then show "map_of ?m k = map_of (as_dict context) k"
      by (simp add: m map_add_def)
  qed
  have keep: "\<forall>k. k \<notin> set (keys (as_dict context)) \<longrightarrow> map_of ?m k = map_of ?e0 k"
    by (simp add: m map_add_def keys_def map_of_eq_None_iff [THEN iffD2])
  from res win keep show ?thesis by blast
qed

theorem get_log_args_context_wins_witness:
  "ContextVar_get
     \<lparr> cv_default = Some \<lparr> timestamp = PStr ''t0'', request_id = PStr ''-'',
                           user_id = PStr ''-'', service = PStr ''-'',
                           environment = PStr ''development'', extra = PNone \<rparr>,
       cv_value = None \<rparr>
   = Inr \<lparr> timestamp = PStr ''t0'', request_id = PStr ''-'', user_id = PStr ''-'',
           service = PStr ''-'', environment = PStr ''development'', extra = PNone \<rparr> \<and>
   (\<exists>m. get_log_args (Some [(''request_id'', PStr ''from-call-site''), (''k'', PInt 1)])
          \<lparr> cv_default = Some \<lparr> timestamp = PStr ''t0'', request_id = PStr ''-'',
                                user_id = PStr ''-'', service = PStr ''-'',
                                environment = PStr ''development'', extra = PNone \<rparr>,
            cv_value = None \<rparr> = Inr m \<and>
        map_of m ''request_id'' = Some (PStr ''-'') \<and> map_of m ''k'' = Some (PInt 1))"
proof -
  let ?d = "\<lparr> timestamp = PStr ''t0'', request_id = PStr ''-'', user_id = PStr ''-'',
              service = PStr ''-'', environment = PStr ''development'', extra = PNone \<rparr>"
  let ?cv = "\<lparr> cv_default = Some ?d, cv_value = None \<rparr>"
  have h: "ContextVar_get ?cv = Inr ?d"
    by (simp add: ContextVar_get_def)
  have k1: "''request_id'' \<in> set (keys (as_dict ?d))"
    by (simp add: keys_def as_dict_def asdict_def)
  have k2: "''k'' \<notin> set (keys (as_dict ?d))"
    by (simp add: keys_def as_dict_def asdict_def)
  from get_log_args_context_wins [OF h,
      of "Some [(''request_id'', PStr ''from-call-site''), (''k'', PInt 1)]"]
  obtain m where
    m: "get_log_args (Some [(''request_id'', PStr ''from-call-site''), (''k'', PInt 1)]) ?cv = Inr m"
    and win: "\<forall>k \<in> set (keys (as_dict ?d)). map_of m k = map_of (as_dict ?d) k"
    and keep: "\<forall>k. k \<notin> set (keys (as_dict ?d)) \<longrightarrow>
                 map_of m k = map_of [(''request_id'', PStr ''from-call-site''), (''k'', PInt 1)] k"
    by auto
  from win k1 have "map_of m ''request_id'' = map_of (as_dict ?d) ''request_id''" by blast
  then have r1: "map_of m ''request_id'' = Some (PStr ''-'')"
    by (simp add: as_dict_def asdict_def)
  from keep k2 have r2: "map_of m ''k'' = Some (PInt 1)" by simp
  from h m r1 r2 show ?thesis by blast
qed

text \<open>The statement of C1 itself fails: the call site gives \<open>request_id\<close>, the default
  context defines it too, and the merged mapping holds the value of the context.\<close>

theorem get_log_args_call_site_loses:
  "get_log_args (Some [(''request_id'', PStr ''from-call-site'')])
     \<lparr> cv_default = Some \<lparr> timestamp = PStr ''t0'', request_id = PStr ''-'',
                           user_id = PStr ''-'', service = PStr ''-'',
                           environment = PStr ''development'', extra = PNone \<rparr>,
       cv_value = None \<rparr>
   = Inr [(''request_id'', PStr ''-''), (''timestamp'', PStr ''t0''), (''user_id'', PStr ''-''),
          (''service'', PStr ''-''), (''environment'', PStr ''development'')]"
  by (simp add: get_log_args_def ContextVar_get_def as_dict_def asdict_def dict_update_def)

subsection \<open>The ambient context is always there\<close>

lemma cv_default_fold_set:
  "cv_default (fold (\<lambda>c v. ContextVar_set v c) cs cv) = cv_default cv"
  by (induction cs arbitrary: cv) (simp_all add: ContextVar_set_def)

lemma ContextVar_get_default:
  "cv_default cv = Some d \<Longrightarrow> \<exists>c. ContextVar_get cv = Inr c"
  by (simp add: ContextVar_get_def split: option.splits)

lemma RequestContext_init_timestamp:
  "RequestContext_init now kwargs = Inr c \<Longrightarrow> timestamp c \<noteq> PNone"
  by (auto simp: RequestContext_init_def post_init_def split: if_splits)

lemma RequestContext_init_timestamp_default:
  "RequestContext_init now kwargs = Inr c \<Longrightarrow> map_of kwargs ''timestamp'' = None \<Longrightarrow>
   timestamp c = PStr now"
  by (auto simp: RequestContext_init_def post_init_def kwarg_def split: if_splits)

text \<open>
  C7: the class body creates the context variable with a default \<open>RequestContext()\<close>,
  so after any sequence of \<open>set\<close> calls, also the empty one, \<open>get\<close> returns a context
  and never raises \<open>LookupError\<close>; and every \<open>RequestContext\<close> that the constructor
  returns has a timestamp other than \<open>None\<close>, which is the creation time when no
  timestamp was given.
\<close>

theorem context_always_present:
  "(\<exists>cv. FastAPILogger_context_var now0 = Inr cv \<and>
      (\<forall>cs. \<exists>c. ContextVar_get (fold (\<lambda>c v. ContextVar_set v c) cs cv) = Inr c)) \<and>
   (\<forall>now kwargs c. RequestContext_init now kwargs = Inr c \<longrightarrow>
      timestamp c \<noteq> PNone \<and> (map_of kwargs ''timestamp'' = None \<longrightarrow> timestamp c = PStr now))"
proof -
  obtain d where d: "RequestContext_init now0 [] = Inr d"
    by (simp add: RequestContext_init_def keys_def)
  let ?cv = "\<lparr> cv_default = Some d, cv_value = None \<rparr>"
  have cv: "FastAPILogger_context_var now0 = Inr ?cv"
    by (simp add: FastAPILogger_context_var_def d)
  have "\<exists>c. ContextVar_get (fold (\<lambda>c v. ContextVar_set v c) cs ?cv) = Inr c" for cs
    by (rule ContextVar_get_default [of _ d]) (simp add: cv_default_fold_set)
  with cv have first: "\<exists>cv. FastAPILogger_context_var now0 = Inr cv \<and>
      (\<forall>cs. \<exists>c. ContextVar_get (fold (\<lambda>c v. ContextVar_set v c) cs cv) = Inr c)"
    by blast
  from first RequestContext_init_timestamp RequestContext_init_timestamp_default
  show ?thesis by blast
qed

theorem context_always_present_witness:
  "RequestContext_init ''t1'' [(''request_id'', PStr ''abc'')]
     = Inr \<lparr> timestamp = PStr ''t1'', request_id = PStr ''abc'', user_id = PStr ''-'',
             service = PStr ''-'', environment = PStr ''development'', extra = PNone \<rparr> \<and>
   map_of [(''request_id'', PStr ''abc'')] ''timestamp'' = None \<and>
   timestamp \<lparr> timestamp = PStr ''t1'', request_id = PStr ''abc'', user_id = PStr ''-'',
               service = PStr ''-'', environment = PStr ''development'', extra = PNone \<rparr>
     = PStr ''t1''"
proof -
  let ?c = "\<lparr> timestamp = PStr ''t1'', request_id = PStr ''abc'', user_id = PStr ''-'',
             service = PStr ''-'', environment = PStr ''development'', extra = PNone \<rparr>"
  have h: "RequestContext_init ''t1'' [(''request_id'', PStr ''abc'')] = Inr ?c"
    by (simp add: RequestContext_init_def keys_def RequestContext_fields_def post_init_def
          kwarg_def)
  have n: "map_of [(''request_id'', PStr ''abc'')] ''timestamp'' = None" by simp
  from context_always_present [of "''t0''", THEN conjunct2, rule_format, OF h]
  have "map_of [(''request_id'', PStr ''abc'')] ''timestamp'' = None \<longrightarrow>
        timestamp ?c = PStr ''t1''"
    by (rule conjunct2)
  then have "timestamp ?c = PStr ''t1''"
    using n by (rule mp)
  with h n show ?thesis by (intro conjI)
qed

subsection \<open>set_context\<close>

lemma fixed_fields_not_settable:
  "''service'' \<notin> {''timestamp'', ''request_id'', ''user_id'', ''extra''}"
  "''environment'' \<notin> {''timestamp'', ''request_id'', ''user_id'', ''extra''}"
  by simp_all

lemma settable_fields_are_fields:
  "{''timestamp'', ''request_id'', ''user_id'', ''extra''} \<subseteq> set RequestContext_fields"
  by (simp add: RequestContext_fields_def)

lemma set_context_settable:
  assumes no: "''service'' \<notin> set (keys kwargs)" "''environment'' \<notin> set (keys kwargs)"
    and ok: "list_all (\<lambda>k. k \<in> set RequestContext_fields) (keys kwargs)"
  shows "set_context self now kwargs cv =
     Inr (cv\<lparr>cv_value := Some (post_init now
        \<lparr> timestamp = kwarg kwargs ''timestamp'' PNone,
          request_id = kwarg kwargs ''request_id'' (PStr ''-''),
          user_id = kwarg kwargs ''user_id'' (PStr ''-''),
          service = PStr (fl_service_name self),
          environment = PStr (fl_environment self),
          extra = kwarg kwargs ''extra'' PNone \<rparr>)\<rparr>)"
  using no ok
  by (simp add: set_context_def RequestContext_init_def keys_def RequestContext_fields_def
        ContextVar_set_def kwarg_def)

text \<open>
  C8, as the code has it: a call of \<open>set_context\<close> whose keywords are among
  \<open>timestamp\<close>, \<open>request_id\<close>, \<open>user_id\<close> and \<open>extra\<close> replaces the ambient
  context by a new \<open>RequestContext\<close>: \<open>service\<close> and \<open>environment\<close> are those of the
  facade, a field that was given has the given value (a \<open>None\<close> timestamp becomes the
  creation time), and a field that was not given has its default. A call that gives
  \<open>service\<close> or \<open>environment\<close> raises instead of overlaying the facade's value.
\<close>

theorem set_context_replaces:
  "(set (keys kwargs) \<subseteq> {''timestamp'', ''request_id'', ''user_id'', ''extra''} \<longrightarrow>
      (\<exists>c. set_context self now kwargs cv = Inr (cv\<lparr>cv_value := Some c\<rparr>) \<and>
           ContextVar_get (cv\<lparr>cv_value := Some c\<rparr>) = Inr c \<and>
           service c = PStr (fl_service_name self) \<and>
           environment c = PStr (fl_environment self) \<and>
           request_id c = kwarg kwargs ''request_id'' (PStr ''-'') \<and>
           user_id c = kwarg kwargs ''user_id'' (PStr ''-'') \<and>
           extra c = kwarg kwargs ''extra'' PNone \<and>
           timestamp c = (if kwarg kwargs ''timestamp'' PNone = PNone then PStr now
                          else kwarg kwargs ''timestamp'' PNone))) \<and>
   (''service'' \<in> set (keys kwargs) \<or> ''environment'' \<in> set (keys kwargs) \<longrightarrow>
      (\<exists>e. set_context self now kwargs cv = Inl e))"
proof (intro conjI impI)
  assume sub: "set (keys kwargs) \<subseteq> {''timestamp'', ''request_id'', ''user_id'', ''extra''}"
  have no: "''service'' \<notin> set (keys kwargs)" "''environment'' \<notin> set (keys kwargs)"
    by (rule contra_subsetD [OF sub fixed_fields_not_settable(1)])
       (rule contra_subsetD [OF sub fixed_fields_not_settable(2)])
  have ok: "list_all (\<lambda>k. k \<in> set RequestContext_fields) (keys kwargs)"
    unfolding list_all_iff subset_eq [symmetric]
    by (rule subset_trans [OF sub settable_fields_are_fields])
  let ?c = "post_init now
      \<lparr> timestamp = kwarg kwargs ''timestamp'' PNone,
        request_id = kwarg kwargs ''request_id'' (PStr ''-''),
        user_id = kwarg kwargs ''user_id'' (PStr ''-''),
        service = PStr (fl_service_name self),
        environment = PStr (fl_environment self),
        extra = kwarg kwargs ''extra'' PNone \<rparr>"
  have r: "set_context self now kwargs cv = Inr (cv\<lparr>cv_value := Some ?c\<rparr>)"
    by (rule set_context_settable [OF no ok])
  have g: "ContextVar_get (cv\<lparr>cv_value := Some ?c\<rparr>) = Inr ?c"
    by (simp add: ContextVar_get_def)
  have f: "service ?c = PStr (fl_service_name self)"
      "environment ?c = PStr (fl_environment self)"
      "request_id ?c = kwarg kwargs ''request_id'' (PStr ''-'')"
      "user_id ?c = kwarg kwargs ''user_id'' (PStr ''-'')"
      "extra ?c = kwarg kwargs ''extra'' PNone"
      "timestamp ?c = (if kwarg kwargs ''timestamp'' PNone = PNone then PStr now
                        else kwarg kwargs ''timestamp'' PNone)"
    by (simp_all add: post_init_def)
  show "\<exists>c. set_context self now kwargs cv = Inr (cv\<lparr>cv_value := Some c\<rparr>) \<and>
           ContextVar_get (cv\<lparr>cv_value := Some c\<rparr>) = Inr c \<and>
           service c = PStr (fl_service_name self) \<and>
           environment c = PStr (fl_environment self) \<and>
           request_id c = kwarg kwargs ''request_id'' (PStr ''-'') \<and>
           user_id c = kwarg kwargs ''user_id'' (PStr ''-'') \<and>
           extra c = kwarg kwargs ''extra'' PNone \<and>
           timestamp c = (if kwarg kwargs ''timestamp'' PNone = PNone then PStr now
                          else kwarg kwargs ''timestamp'' PNone)"
    by (rule exI [of _ ?c]) (simp only: r g f simp_thms)
next
  assume "''service'' \<in> set (keys kwargs) \<or> ''environment'' \<in> set (keys kwargs)"
  then show "\<exists>e. set_context self now kwargs cv = Inl e"
    by (auto simp: set_context_def)
qed

theorem set_context_replaces_witness:
  "set (keys [(''request_id'', PStr ''abc'')])
     \<subseteq> {''timestamp'', ''request_id'', ''user_id'', ''extra''} \<and>
   (\<exists>c. set_context
          \<lparr> fl_name = ''app'', fl_log_dir = ''var/logs'', fl_service_name = ''svc'',
            fl_environment = ''prod'', fl_elastic_config = None \<rparr>
          ''t1'' [(''request_id'', PStr ''abc'')] \<lparr> cv_default = None, cv_value = None \<rparr>
        = Inr \<lparr> cv_default = None, cv_value = Some c \<rparr> \<and>
        ContextVar_get \<lparr> cv_default = None, cv_value = Some c \<rparr> = Inr c \<and>
        service c = PStr ''svc'' \<and> environment c = PStr ''prod'' \<and>
        request_id c = PStr ''abc'' \<and> user_id c = PStr ''-'' \<and> extra c = PNone \<and>
        timestamp c = PStr ''t1'') \<and>
   ''service'' \<in> set (keys [(''service'', PStr ''billing'')]) \<and>
   (\<exists>e. set_context
          \<lparr> fl_name = ''app'', fl_log_dir = ''var/logs'', fl_service_name = ''svc'',
            fl_environment = ''prod'', fl_elastic_config = None \<rparr>
          ''t1'' [(''service'', PStr ''billing'')] \<lparr> cv_default = None, cv_value = None \<rparr>
        = Inl e)"
proof -
  let ?self = "\<lparr> fl_name = ''app'', fl_log_dir = ''var/logs'', fl_service_name = ''svc'',
                 fl_environment = ''prod'', fl_elastic_config = None \<rparr>"
  let ?cv = "\<lparr> cv_default = None, cv_value = None \<rparr>"
  have h1: "set (keys [(''request_id'', PStr ''abc'')])
     \<subseteq> {''timestamp'', ''request_id'', ''user_id'', ''extra''}"
    by (simp add: keys_def)
  have h2: "''service'' \<in> set (keys [(''service'', PStr ''billing'')])"
    by (simp add: keys_def)
  note e = set_context_replaces
    [where kwargs = "[(''request_id'', PStr ''abc'')]" and self = ?self and now = "''t1''"
       and cv = ?cv, THEN conjunct1, THEN mp, OF h1]
  have k: "kwarg [(''request_id'', PStr ''abc'')] ''request_id'' (PStr ''-'') = PStr ''abc''"
      "kwarg [(''request_id'', PStr ''abc'')] ''user_id'' (PStr ''-'') = PStr ''-''"
      "kwarg [(''request_id'', PStr ''abc'')] ''extra'' PNone = PNone"
      "kwarg [(''request_id'', PStr ''abc'')] ''timestamp'' PNone = PNone"
    by (simp_all add: kwarg_def)
  have a: "\<exists>c. set_context ?self ''t1'' [(''request_id'', PStr ''abc'')] ?cv
            = Inr \<lparr> cv_default = None, cv_value = Some c \<rparr> \<and>
        ContextVar_get \<lparr> cv_default = None, cv_value = Some c \<rparr> = Inr c \<and>
        service c = PStr ''svc'' \<and> environment c = PStr ''prod'' \<and>
        request_id c = PStr ''abc'' \<and> user_id c = PStr ''-'' \<and> extra c = PNone \<and>
        timestamp c = PStr ''t1''"
    using e unfolding k by simp
  have b: "\<exists>e. set_context ?self ''t1'' [(''service'', PStr ''billing'')] ?cv = Inl e"
    by (rule set_context_replaces
      [where kwargs = "[(''service'', PStr ''billing'')]" and self = ?self and now = "''t1''"
         and cv = ?cv, THEN conjunct2, THEN mp, OF disjI1, OF h2])
  show ?thesis
    apply (rule conjI, rule h1)
    apply (rule conjI, rule a)
    apply (rule conjI, rule h2)
    apply (rule b)
    done
qed

text \<open>The statement of C8 itself fails: a supplied \<open>service\<close> is not laid over the
  facade's value; the call raises and the context is not replaced.\<close>

theorem set_context_service_raises:
  "set_context
     \<lparr> fl_name = ''app'', fl_log_dir = ''var/logs'', fl_service_name = ''svc'',
       fl_environment = ''prod'', fl_elastic_config = None \<rparr>
     ''t1'' [(''service'', PStr ''billing'')] \<lparr> cv_default = None, cv_value = None \<rparr>
   = Inl (TypeError ''got multiple values for keyword argument'')"
  by (simp add: set_context_def keys_def)

subsection \<open>The structured formatter\<close>

lemma list_all_AList_update:
  "P (k, v) \<Longrightarrow> list_all P l \<Longrightarrow> list_all P (AList.update k v l)"
  by (induction l) auto

lemma list_all_dict_update:
  "list_all P d \<Longrightarrow> list_all P e \<Longrightarrow> list_all P (dict_update d e)"
  unfolding dict_update_def
  by (induction e arbitrary: d) (auto simp: list_all_AList_update)

lemma json_ok_log_data:
  "list_all (\<lambda>kv. json_ok (snd kv))
     [(''timestamp'', PStr a), (''level'', PStr b), (''message'', PStr c), (''logger'', PStr d)]"
  by simp

lemma getMessage_ok:
  assumes "r_args r = [] \<or> (\<exists>s. rt_percent rt (r_msg r) (r_args r) = Inr s)"
  shows "\<exists>message. getMessage rt r = Inr message"
  using assms by (auto simp: getMessage_def)

lemma getMessage_raises:
  assumes "r_args r \<noteq> []" and "rt_percent rt (r_msg r) (r_args r) = Inl (c, m)"
  shows "getMessage rt r = Inl (Exc c m)"
  using assms by (simp add: getMessage_def)

lemma getMessage_raises_Exception:
  "getMessage rt r = Inl e \<Longrightarrow> \<exists>c m. e = Exc c m"
  by (auto simp: getMessage_def split: if_splits sum.splits)

lemma JsonFormatter_format_ok:
  assumes gm: "getMessage rt r = Inr message"
    and ex: "map_of (r_attrs r) ''extra'' = None \<or>
           (\<exists>d. map_of (r_attrs r) ''extra'' = Some (PDict d) \<and>
                list_all (\<lambda>kv. json_ok (snd kv)) d)"
  shows "\<exists>s. JsonFormatter_format rt r = Inr (JsonLine s)"
proof -
  let ?ld = "[(''timestamp'', PStr (rt_utcnow rt)), (''level'', PStr (levelname (r_level r))),
              (''message'', PStr message), (''logger'', PStr (r_name r))]"
  have ok0: "list_all (\<lambda>kv. json_ok (snd kv)) ?ld" by (rule json_ok_log_data)
  from ex obtain ld1 where
    u: "(case map_of (r_attrs r) ''extra'' of None \<Rightarrow> Inr ?ld | Some x \<Rightarrow> py_update ?ld x) = Inr ld1"
    and ok1: "list_all (\<lambda>kv. json_ok (snd kv)) ld1"
  proof (elim disjE exE conjE)
    assume "map_of (r_attrs r) ''extra'' = None"
    then have "(case map_of (r_attrs r) ''extra'' of None \<Rightarrow> Inr ?ld | Some x \<Rightarrow> py_update ?ld x) = Inr ?ld"
      by simp
    then show ?thesis using ok0 by (rule that)
  next
    fix d assume d: "map_of (r_attrs r) ''extra'' = Some (PDict d)"
      and okd: "list_all (\<lambda>kv. json_ok (snd kv)) d"
    from d have "(case map_of (r_attrs r) ''extra'' of None \<Rightarrow> Inr ?ld | Some x \<Rightarrow> py_update ?ld x)
       = Inr (dict_update ?ld d)"
      by simp
    then show ?thesis using list_all_dict_update [OF ok0 okd] by (rule that)
  qed
  let ?ld2 = "case r_exc_info r of None \<Rightarrow> ld1
               | Some ei \<Rightarrow> AList.update ''exception'' (PStr (formatException ei)) ld1"
  have ok2: "list_all (\<lambda>kv. json_ok (snd kv)) ?ld2"
    using ok1 by (cases "r_exc_info r") (simp_all add: list_all_AList_update)
  then have "json_dumps (PDict ?ld2) = Inr (JsonText (PDict ?ld2))"
    by (simp add: json_dumps_def)
  then have "JsonFormatter_format rt r = Inr (JsonLine (JsonText (PDict ?ld2)))"
    unfolding JsonFormatter_format_def gm sum.case Let_def u by simp
  then show ?thesis by (rule exI)
qed

lemma map_of_AList_update_other:
  "k \<noteq> k' \<Longrightarrow> map_of (AList.update k' v' l) k = map_of l k"
  by (simp add: AList.update_conv')

lemma JsonFormatter_format_raises:
  assumes gm: "getMessage rt r = Inr message"
    and d: "map_of (r_attrs r) ''extra'' = Some (PDict d)"
    and dist: "distinct (map fst d)"
    and kv: "(k, v) \<in> set d" and bad: "\<not> json_ok v"
    and k: "k \<noteq> ''exception'' \<or> r_exc_info r = None"
  shows "JsonFormatter_format rt r = Inl (TypeError ''Object is not JSON serializable'')"
proof -
  let ?ld = "[(''timestamp'', PStr (rt_utcnow rt)), (''level'', PStr (levelname (r_level r))),
              (''message'', PStr message), (''logger'', PStr (r_name r))]"
  let ?ld1 = "dict_update ?ld d"
  from d have u: "(case map_of (r_attrs r) ''extra'' of None \<Rightarrow> Inr ?ld | Some x \<Rightarrow> py_update ?ld x)
       = Inr ?ld1"
    by simp
  from dist kv have "map_of d k = Some v" by (rule map_of_is_SomeI)
  then have m1: "map_of ?ld1 k = Some v"
    by (simp add: map_of_dict_update_distinct [OF dist] map_add_def)
  let ?ld2 = "case r_exc_info r of None \<Rightarrow> ?ld1
               | Some ei \<Rightarrow> AList.update ''exception'' (PStr (formatException ei)) ?ld1"
  have "map_of ?ld2 k = Some v"
  proof (cases "r_exc_info r")
    case None
    then show ?thesis using m1 by simp
  next
    case (Some ei)
    with k have "k \<noteq> ''exception''" by simp
    then show ?thesis using m1 Some by (simp add: map_of_AList_update_other)
  qed
  then have "(k, v) \<in> set ?ld2" by (rule map_of_SomeD)
  then have "\<exists>kv \<in> set ?ld2. \<not> json_ok (snd kv)"
    using bad by (intro bexI [of _ "(k, v)"]) simp_all
  then have "\<not> list_all (\<lambda>kv. json_ok (snd kv)) ?ld2"
    by (simp add: list_all_iff)
  then have "json_dumps (PDict ?ld2) = Inl (TypeError ''Object is not JSON serializable'')"
    by (simp add: json_dumps_def)
  then show ?thesis
    unfolding JsonFormatter_format_def gm sum.case Let_def u by simp
qed

lemma JsonFormatter_format_message_raises:
  "getMessage rt r = Inl e \<Longrightarrow> JsonFormatter_format rt r = Inl e"
  by (simp add: JsonFormatter_format_def)

text \<open>
  C3, as the code has it. \<open>JsonFormatter.format\<close> returns a line of JSON for every
  record whose message formats (the record has no positional arguments, or
  \<open>msg % args\<close> succeeds) and whose \<open>extra\<close> attribute is absent or is a dict of
  JSON-serialisable values. Nothing is coerced to a string and no error is caught:
  when the message formats and that dict holds a value that is not serialisable, under
  a key other than \<open>exception\<close> or under any key when no exception was captured,
  \<open>format\<close> raises the \<open>TypeError\<close> of \<open>json.dumps\<close>; and when \<open>msg % args\<close>
  raises, \<open>format\<close> raises that exception.
\<close>

theorem JsonFormatter_format_total_on_serialisable:
  "((r_args r = [] \<or> (\<exists>s. rt_percent rt (r_msg r) (r_args r) = Inr s)) \<and>
    (map_of (r_attrs r) ''extra'' = None \<or>
     (\<exists>d. map_of (r_attrs r) ''extra'' = Some (PDict d) \<and>
          list_all (\<lambda>kv. json_ok (snd kv)) d)) \<longrightarrow>
    (\<exists>s. JsonFormatter_format rt r = Inr (JsonLine s))) \<and>
   ((r_args r = [] \<or> (\<exists>s. rt_percent rt (r_msg r) (r_args r) = Inr s)) \<and>
    (\<exists>d k v. map_of (r_attrs r) ''extra'' = Some (PDict d) \<and> distinct (map fst d) \<and>
        (k, v) \<in> set d \<and> \<not> json_ok v \<and> (k \<noteq> ''exception'' \<or> r_exc_info r = None)) \<longrightarrow>
    JsonFormatter_format rt r = Inl (TypeError ''Object is not JSON serializable'')) \<and>
   (r_args r \<noteq> [] \<and> rt_percent rt (r_msg r) (r_args r) = Inl (c, m) \<longrightarrow>
    JsonFormatter_format rt r = Inl (Exc c m))"
proof (intro conjI impI)
  assume a: "(r_args r = [] \<or> (\<exists>s. rt_percent rt (r_msg r) (r_args r) = Inr s)) \<and>
    (map_of (r_attrs r) ''extra'' = None \<or>
     (\<exists>d. map_of (r_attrs r) ''extra'' = Some (PDict d) \<and>
          list_all (\<lambda>kv. json_ok (snd kv)) d))"
  from getMessage_ok [OF a [THEN conjunct1]]
  obtain message where gm: "getMessage rt r = Inr message" ..
  show "\<exists>s. JsonFormatter_format rt r = Inr (JsonLine s)"
    by (rule JsonFormatter_format_ok [OF gm a [THEN conjunct2]])
next
  assume a: "(r_args r = [] \<or> (\<exists>s. rt_percent rt (r_msg r) (r_args r) = Inr s)) \<and>
    (\<exists>d k v. map_of (r_attrs r) ''extra'' = Some (PDict d) \<and> distinct (map fst d) \<and>
        (k, v) \<in> set d \<and> \<not> json_ok v \<and> (k \<noteq> ''exception'' \<or> r_exc_info r = None))"
  from getMessage_ok [OF a [THEN conjunct1]]
  obtain message where gm: "getMessage rt r = Inr message" ..
  from a [THEN conjunct2]
  obtain d k v where "map_of (r_attrs r) ''extra'' = Some (PDict d)" "distinct (map fst d)"
        "(k, v) \<in> set d" "\<not> json_ok v" "k \<noteq> ''exception'' \<or> r_exc_info r = None"
    by (elim exE conjE)
  with gm show "JsonFormatter_format rt r = Inl (TypeError ''Object is not JSON serializable'')"
    by (rule JsonFormatter_format_raises)
next
  assume a: "r_args r \<noteq> [] \<and> rt_percent rt (r_msg r) (r_args r) = Inl (c, m)"
  show "JsonFormatter_format rt r = Inl (Exc c m)"
    by (rule JsonFormatter_format_message_raises
          [OF getMessage_raises [OF a [THEN conjunct1] a [THEN conjunct2]]])
qed

text \<open>The statement of C3 itself fails: a record whose \<open>extra\<close> holds an object that
  is not serialisable makes \<open>format\<close> raise.\<close>

theorem JsonFormatter_format_unserialisable_raises:
  "JsonFormatter_format
     \<lparr> rt_utcnow = ''2024-01-01T00:00:00'', rt_asctime = ''2024-01-01 00:00:00,000'',
       rt_date = ''2024.01.01'',
       rt_percent = (\<lambda>msg args. Inl (''TypeError'', ''not all arguments converted during string formatting'')) \<rparr>
     \<lparr> r_name = ''app'', r_level = INFO, r_msg = ''hello'', r_args = [], r_exc_info = None,
       r_attrs = [(''extra'', PDict [(''conn'', PObj ''<Connection>'')])] \<rparr>
   = Inl (TypeError ''Object is not JSON serializable'')"
  by (simp add: JsonFormatter_format_def getMessage_def dict_update_def json_dumps_def)

theorem JsonFormatter_format_total_on_serialisable_witness:
  "(r_args \<lparr> r_name = ''app'', r_level = INFO, r_msg = ''hello'', r_args = [],
       r_exc_info = None, r_attrs = [(''request_id'', PStr ''abc'')] \<rparr> = [] \<and> map_of (r_attrs \<lparr> r_name = ''app'', r_level = INFO, r_msg = ''hello'', r_args = [],
       r_exc_info = None, r_attrs = [(''request_id'', PStr ''abc'')] \<rparr>) ''extra'' = None) \<and>
   (\<exists>s. JsonFormatter_format \<lparr> rt_utcnow = ''t'', rt_asctime = ''a'', rt_date = ''d'',
       rt_percent = (\<lambda>msg args. Inl (''TypeError'', ''not all arguments converted during string formatting'')) \<rparr> \<lparr> r_name = ''app'', r_level = INFO, r_msg = ''hello'', r_args = [],
       r_exc_info = None, r_attrs = [(''request_id'', PStr ''abc'')] \<rparr> = Inr (JsonLine s)) \<and>
   (r_args \<lparr> r_name = ''app'', r_level = INFO, r_msg = ''hello'', r_args = [],
       r_exc_info = None, r_attrs = [(''extra'', PDict [(''conn'', PObj ''<Connection>'')])] \<rparr> = [] \<and>
    map_of (r_attrs \<lparr> r_name = ''app'', r_level = INFO, r_msg = ''hello'', r_args = [],
       r_exc_info = None, r_attrs = [(''extra'', PDict [(''conn'', PObj ''<Connection>'')])] \<rparr>) ''extra'' = Some (PDict [(''conn'', PObj ''<Connection>'')]) \<and>
    distinct (map fst [(''conn'', PObj ''<Connection>'')]) \<and>
    (''conn'', PObj ''<Connection>'') \<in> set [(''conn'', PObj ''<Connection>'')] \<and>
    \<not> json_ok (PObj ''<Connection>'') \<and> ''conn'' \<noteq> ''exception'') \<and>
   JsonFormatter_format \<lparr> rt_utcnow = ''t'', rt_asctime = ''a'', rt_date = ''d'',
       rt_percent = (\<lambda>msg args. Inl (''TypeError'', ''not all arguments converted during string formatting'')) \<rparr> \<lparr> r_name = ''app'', r_level = INFO, r_msg = ''hello'', r_args = [],
       r_exc_info = None, r_attrs = [(''extra'', PDict [(''conn'', PObj ''<Connection>'')])] \<rparr> = Inl (TypeError ''Object is not JSON serializable'') \<and>
   (r_args \<lparr> r_name = ''app'', r_level = INFO, r_msg = ''done'', r_args = [PInt 5],
       r_exc_info = None, r_attrs = [(''request_id'', PStr ''abc'')] \<rparr> \<noteq> [] \<and>
    rt_percent \<lparr> rt_utcnow = ''t'', rt_asctime = ''a'', rt_date = ''d'',
       rt_percent = (\<lambda>msg args. Inl (''TypeError'', ''not all arguments converted during string formatting'')) \<rparr> (r_msg \<lparr> r_name = ''app'', r_level = INFO, r_msg = ''done'', r_args = [PInt 5],
       r_exc_info = None, r_attrs = [(''request_id'', PStr ''abc'')] \<rparr>) (r_args \<lparr> r_name = ''app'', r_level = INFO, r_msg = ''done'', r_args = [PInt 5],
       r_exc_info = None, r_attrs = [(''request_id'', PStr ''abc'')] \<rparr>)
      = Inl (''TypeError'', ''not all arguments converted during string formatting'')) \<and>
   JsonFormatter_format \<lparr> rt_utcnow = ''t'', rt_asctime = ''a'', rt_date = ''d'',
       rt_percent = (\<lambda>msg args. Inl (''TypeError'', ''not all arguments converted during string formatting'')) \<rparr> \<lparr> r_name = ''app'', r_level = INFO, r_msg = ''done'', r_args = [PInt 5],
       r_exc_info = None, r_attrs = [(''request_id'', PStr ''abc'')] \<rparr>
     = Inl (Exc ''TypeError'' ''not all arguments converted during string formatting'')"
proof -
  let ?rt = "\<lparr> rt_utcnow = ''t'', rt_asctime = ''a'', rt_date = ''d'',
       rt_percent = (\<lambda>msg args. Inl (''TypeError'', ''not all arguments converted during string formatting'')) \<rparr>"
  let ?r1 = "\<lparr> r_name = ''app'', r_level = INFO, r_msg = ''hello'', r_args = [],
       r_exc_info = None, r_attrs = [(''request_id'', PStr ''abc'')] \<rparr>"
  let ?r2 = "\<lparr> r_name = ''app'', r_level = INFO, r_msg = ''hello'', r_args = [],
       r_exc_info = None, r_attrs = [(''extra'', PDict [(''conn'', PObj ''<Connection>'')])] \<rparr>"
  let ?r3 = "\<lparr> r_name = ''app'', r_level = INFO, r_msg = ''done'', r_args = [PInt 5],
       r_exc_info = None, r_attrs = [(''request_id'', PStr ''abc'')] \<rparr>"
  have h1: "r_args ?r1 = [] \<and> map_of (r_attrs ?r1) ''extra'' = None" by simp
  have h1': "(r_args ?r1 = [] \<or> (\<exists>s. rt_percent ?rt (r_msg ?r1) (r_args ?r1) = Inr s)) \<and>
    (map_of (r_attrs ?r1) ''extra'' = None \<or>
     (\<exists>d. map_of (r_attrs ?r1) ''extra'' = Some (PDict d) \<and>
          list_all (\<lambda>kv. json_ok (snd kv)) d))"
    by (rule conjI, rule disjI1, rule h1 [THEN conjunct1], rule disjI1,
        rule h1 [THEN conjunct2])
  have a: "\<exists>s. JsonFormatter_format ?rt ?r1 = Inr (JsonLine s)"
    by (rule JsonFormatter_format_total_on_serialisable
          [where r = ?r1 and rt = ?rt, THEN conjunct1, THEN mp, OF h1'])
  have h2: "r_args ?r2 = [] \<and>
    map_of (r_attrs ?r2) ''extra'' = Some (PDict [(''conn'', PObj ''<Connection>'')]) \<and>
    distinct (map fst [(''conn'', PObj ''<Connection>'')]) \<and>
    (''conn'', PObj ''<Connection>'') \<in> set [(''conn'', PObj ''<Connection>'')] \<and>
    \<not> json_ok (PObj ''<Connection>'') \<and> ''conn'' \<noteq> ''exception''"
    by simp
  have h2': "(r_args ?r2 = [] \<or> (\<exists>s. rt_percent ?rt (r_msg ?r2) (r_args ?r2) = Inr s)) \<and>
    (\<exists>d k v. map_of (r_attrs ?r2) ''extra'' = Some (PDict d) \<and> distinct (map fst d) \<and>
        (k, v) \<in> set d \<and> \<not> json_ok v \<and> (k \<noteq> ''exception'' \<or> r_exc_info ?r2 = None))"
    apply (rule conjI, rule disjI1, rule h2 [THEN conjunct1])
    apply (rule exI [of _ "[(''conn'', PObj ''<Connection>'')]"])
    apply (rule exI [of _ "''conn''"])
    apply (rule exI [of _ "PObj ''<Connection>''"])
    apply simp
    done
  have b: "JsonFormatter_format ?rt ?r2 = Inl (TypeError ''Object is not JSON serializable'')"
    by (rule JsonFormatter_format_total_on_serialisable
          [where r = ?r2 and rt = ?rt, THEN conjunct2, THEN conjunct1, THEN mp, OF h2'])
  have h3: "r_args ?r3 \<noteq> [] \<and>
    rt_percent ?rt (r_msg ?r3) (r_args ?r3)
      = Inl (''TypeError'', ''not all arguments converted during string formatting'')"
    by simp
  have c: "JsonFormatter_format ?rt ?r3
     = Inl (Exc ''TypeError'' ''not all arguments converted during string formatting'')"
    by (rule JsonFormatter_format_total_on_serialisable
          [where r = ?r3 and rt = ?rt, THEN conjunct2, THEN conjunct2, THEN mp, OF h3])
  show ?thesis
    apply (rule conjI, rule h1)
    apply (rule conjI, rule a)
    apply (rule conjI, rule h2)
    apply (rule conjI, rule b)
    apply (rule conjI, rule h3)
    apply (rule c)
    done
qed

subsection \<open>Sinks and severity\<close>

lemma callHandlers_loop_filter:
  "callHandlers_loop rt r hs w =
     fold (Handler_handle rt r) (filter (\<lambda>h. h_level h \<le> levelno (r_level r)) hs) w"
  by (induction hs arbitrary: w) simp_all

lemma configure_logger_handlers:
  assumes "configure_logger fs self reg = Inr reg'"
  shows "lg_handlers (getLogger reg' (fl_name self)) =
     (if lg_handlers (getLogger reg (fl_name self)) = []
      then [file_handler (fl_log_dir self), json_handler (fl_log_dir self), console_handler]
      else lg_handlers (getLogger reg (fl_name self)))"
    and "lg_level (getLogger reg' (fl_name self)) = 10"
  using assms
  by (auto simp: configure_logger_def Let_def getLogger_def split: if_splits)

lemma FastAPILogger_init_configure:
  "FastAPILogger_init fs name log_dir ec sn env reg = Inr (self, reg') \<Longrightarrow>
   configure_logger fs self reg = Inr reg' \<and> fl_log_dir self = log_dir \<and>
   fl_name self = (case name of None \<Rightarrow> ''utils.logger_with_elastic''
                   | Some n \<Rightarrow> if n = [] then ''utils.logger_with_elastic'' else n)"
  by (auto simp: FastAPILogger_init_def Let_def split: sum.splits)

text \<open>
  C4: the handlers of a logger that handle a record are exactly those whose level is
  at most the level of the record, in the logger's order. \<open>_configure_logger\<close> gives
  a logger without handlers the text file sink and the JSON file sink at INFO and the
  console sink at DEBUG, so a DEBUG record is handled by the console sink alone, and a
  record of a higher level by all three.
\<close>

theorem severity_filtering:
  "(hs \<noteq> [] \<longrightarrow>
      callHandlers rt r hs w =
        fold (Handler_handle rt r) (filter (\<lambda>h. h_level h \<le> levelno (r_level r)) hs) w) \<and>
   (configure_logger fs self reg = Inr reg' \<and> lg_handlers (getLogger reg (fl_name self)) = [] \<longrightarrow>
      lg_handlers (getLogger reg' (fl_name self)) =
        [file_handler (fl_log_dir self), json_handler (fl_log_dir self), console_handler] \<and>
      h_level (file_handler (fl_log_dir self)) = levelno INFO \<and>
      h_level (json_handler (fl_log_dir self)) = levelno INFO \<and>
      h_level console_handler = levelno DEBUG) \<and>
   (r_level r = DEBUG \<longrightarrow>
      callHandlers rt r [file_handler d, json_handler d, console_handler] w =
        Handler_handle rt r console_handler w) \<and>
   (r_level r \<noteq> DEBUG \<longrightarrow>
      callHandlers rt r [file_handler d, json_handler d, console_handler] w =
        Handler_handle rt r console_handler
          (Handler_handle rt r (json_handler d) (Handler_handle rt r (file_handler d) w)))"
proof (intro conjI impI)
  assume "hs \<noteq> []"
  then show "callHandlers rt r hs w =
        fold (Handler_handle rt r) (filter (\<lambda>h. h_level h \<le> levelno (r_level r)) hs) w"
    by (simp add: callHandlers_def callHandlers_loop_filter)
next
  assume a: "configure_logger fs self reg = Inr reg' \<and> lg_handlers (getLogger reg (fl_name self)) = []"
  then have c: "configure_logger fs self reg = Inr reg'"
    and e: "lg_handlers (getLogger reg (fl_name self)) = []"
    by simp_all
  show "lg_handlers (getLogger reg' (fl_name self)) =
        [file_handler (fl_log_dir self), json_handler (fl_log_dir self), console_handler]"
    using configure_logger_handlers(1) [OF c] e by simp
  show "h_level (file_handler (fl_log_dir self)) = levelno INFO"
    by (simp add: file_handler_def)
  show "h_level (json_handler (fl_log_dir self)) = levelno INFO"
    by (simp add: json_handler_def)
  show "h_level console_handler = levelno DEBUG"
    by (simp add: console_handler_def)
next
  assume "r_level r = DEBUG"
  then show "callHandlers rt r [file_handler d, json_handler d, console_handler] w =
        Handler_handle rt r console_handler w"
    by (simp add: callHandlers_def file_handler_def json_handler_def console_handler_def)
next
  assume "r_level r \<noteq> DEBUG"
  then show "callHandlers rt r [file_handler d, json_handler d, console_handler] w =
        Handler_handle rt r console_handler
          (Handler_handle rt r (json_handler d) (Handler_handle rt r (file_handler d) w))"
    by (cases "r_level r")
       (simp_all add: callHandlers_def file_handler_def json_handler_def console_handler_def)
qed

text \<open>
  C10: when two facades are constructed with the same name, the second construction
  adds no handler: the logger of that name has the handlers it had after the first
  construction, which are not empty; if the logger had none before the first
  construction they are the three sinks of the first facade, once each.
\<close>

theorem configure_logger_idempotent:
  assumes i1: "FastAPILogger_init fs1 name d1 ec1 sn1 env1 reg = Inr (l1, reg1)"
    and i2: "FastAPILogger_init fs2 name d2 ec2 sn2 env2 reg1 = Inr (l2, reg2)"
  shows "fl_name l2 = fl_name l1 \<and>
         lg_handlers (getLogger reg2 (fl_name l2)) = lg_handlers (getLogger reg1 (fl_name l1)) \<and>
         lg_handlers (getLogger reg1 (fl_name l1)) \<noteq> [] \<and>
         (lg_handlers (getLogger reg (fl_name l1)) = [] \<longrightarrow>
            lg_handlers (getLogger reg2 (fl_name l2)) =
              [file_handler d1, json_handler d1, console_handler])"
proof -
  from FastAPILogger_init_configure [OF i1]
  have c1: "configure_logger fs1 l1 reg = Inr reg1" and dir1: "fl_log_dir l1 = d1"
    and n1: "fl_name l1 = (case name of None \<Rightarrow> ''utils.logger_with_elastic''
                   | Some n \<Rightarrow> if n = [] then ''utils.logger_with_elastic'' else n)"
    by simp_all
  from FastAPILogger_init_configure [OF i2]
  have c2: "configure_logger fs2 l2 reg1 = Inr reg2"
    and n2: "fl_name l2 = (case name of None \<Rightarrow> ''utils.logger_with_elastic''
                   | Some n \<Rightarrow> if n = [] then ''utils.logger_with_elastic'' else n)"
    by simp_all
  from n1 n2 have same: "fl_name l2 = fl_name l1" by simp
  have h1: "lg_handlers (getLogger reg1 (fl_name l1)) =
     (if lg_handlers (getLogger reg (fl_name l1)) = []
      then [file_handler d1, json_handler d1, console_handler]
      else lg_handlers (getLogger reg (fl_name l1)))"
    using configure_logger_handlers(1) [OF c1] dir1 by simp
  then have ne: "lg_handlers (getLogger reg1 (fl_name l1)) \<noteq> []"
    by (simp split: if_splits)
  have h2: "lg_handlers (getLogger reg2 (fl_name l2)) = lg_handlers (getLogger reg1 (fl_name l1))"
    using configure_logger_handlers(1) [OF c2] ne same by simp
  from same h2 ne h1 show ?thesis by simp
qed


theorem severity_filtering_witness:
  "[console_handler] \<noteq> [] \<and>
   callHandlers \<lparr> rt_utcnow = ''t'', rt_asctime = ''a'', rt_date = ''d'',
       rt_percent = (\<lambda>msg args. Inl (''TypeError'', ''not all arguments converted during string formatting'')) \<rparr>
     \<lparr> r_name = ''app'', r_level = DEBUG, r_msg = ''m'', r_args = [], r_exc_info = None, r_attrs = [] \<rparr>
     [console_handler]
     \<lparr> w_files = [], w_stdout = [], w_stderr = [], w_es_docs = [], w_records = [] \<rparr>
   = fold (Handler_handle \<lparr> rt_utcnow = ''t'', rt_asctime = ''a'', rt_date = ''d'',
       rt_percent = (\<lambda>msg args. Inl (''TypeError'', ''not all arguments converted during string formatting'')) \<rparr>
            \<lparr> r_name = ''app'', r_level = DEBUG, r_msg = ''m'', r_args = [], r_exc_info = None, r_attrs = [] \<rparr>)
       (filter (\<lambda>h. h_level h \<le> levelno (r_level
            \<lparr> r_name = ''app'', r_level = DEBUG, r_msg = ''m'', r_args = [], r_exc_info = None, r_attrs = [] \<rparr>))
          [console_handler])
       \<lparr> w_files = [], w_stdout = [], w_stderr = [], w_es_docs = [], w_records = [] \<rparr> \<and>
   (configure_logger \<lparr> can_mkdir = (\<lambda>p. True), can_open = (\<lambda>p. True) \<rparr>
      \<lparr> fl_name = ''app'', fl_log_dir = ''var/logs'', fl_service_name = ''svc'',
        fl_environment = ''prod'', fl_elastic_config = None \<rparr> (\<lambda>n. None)
    = Inr ((\<lambda>n. None)(''app'' \<mapsto> \<lparr> lg_level = 10, lg_handlers =
        [file_handler ''var/logs'', json_handler ''var/logs'', console_handler] \<rparr>)) \<and>
    lg_handlers (getLogger (\<lambda>n. None) ''app'') = []) \<and>
   lg_handlers (getLogger ((\<lambda>n. None)(''app'' \<mapsto> \<lparr> lg_level = 10, lg_handlers =
        [file_handler ''var/logs'', json_handler ''var/logs'', console_handler] \<rparr>)) ''app'')
     = [file_handler ''var/logs'', json_handler ''var/logs'', console_handler] \<and>
   r_level \<lparr> r_name = ''app'', r_level = DEBUG, r_msg = ''m'', r_args = [], r_exc_info = None, r_attrs = [] \<rparr>
     = DEBUG \<and>
   callHandlers \<lparr> rt_utcnow = ''t'', rt_asctime = ''a'', rt_date = ''d'',
       rt_percent = (\<lambda>msg args. Inl (''TypeError'', ''not all arguments converted during string formatting'')) \<rparr>
     \<lparr> r_name = ''app'', r_level = DEBUG, r_msg = ''m'', r_args = [], r_exc_info = None, r_attrs = [] \<rparr>
     [file_handler ''var/logs'', json_handler ''var/logs'', console_handler]
     \<lparr> w_files = [], w_stdout = [], w_stderr = [], w_es_docs = [], w_records = [] \<rparr>
   = Handler_handle \<lparr> rt_utcnow = ''t'', rt_asctime = ''a'', rt_date = ''d'',
       rt_percent = (\<lambda>msg args. Inl (''TypeError'', ''not all arguments converted during string formatting'')) \<rparr>
       \<lparr> r_name = ''app'', r_level = DEBUG, r_msg = ''m'', r_args = [], r_exc_info = None, r_attrs = [] \<rparr>
       console_handler
       \<lparr> w_files = [], w_stdout = [], w_stderr = [], w_es_docs = [], w_records = [] \<rparr> \<and>
   r_level \<lparr> r_name = ''app'', r_level = INFO, r_msg = ''m'', r_args = [], r_exc_info = None, r_attrs = [] \<rparr>
     \<noteq> DEBUG \<and>
   callHandlers \<lparr> rt_utcnow = ''t'', rt_asctime = ''a'', rt_date = ''d'',
       rt_percent = (\<lambda>msg args. Inl (''TypeError'', ''not all arguments converted during string formatting'')) \<rparr>
     \<lparr> r_name = ''app'', r_level = INFO, r_msg = ''m'', r_args = [], r_exc_info = None, r_attrs = [] \<rparr>
     [file_handler ''var/logs'', json_handler ''var/logs'', console_handler]
     \<lparr> w_files = [], w_stdout = [], w_stderr = [], w_es_docs = [], w_records = [] \<rparr>
   = Handler_handle \<lparr> rt_utcnow = ''t'', rt_asctime = ''a'', rt_date = ''d'',
       rt_percent = (\<lambda>msg args. Inl (''TypeError'', ''not all arguments converted during string formatting'')) \<rparr>
       \<lparr> r_name = ''app'', r_level = INFO, r_msg = ''m'', r_args = [], r_exc_info = None, r_attrs = [] \<rparr>
       console_handler
       (Handler_handle \<lparr> rt_utcnow = ''t'', rt_asctime = ''a'', rt_date = ''d'',
       rt_percent = (\<lambda>msg args. Inl (''TypeError'', ''not all arguments converted during string formatting'')) \<rparr>
         \<lparr> r_name = ''app'', r_level = INFO, r_msg = ''m'', r_args = [], r_exc_info = None, r_attrs = [] \<rparr>
         (json_handler ''var/logs'')
         (Handler_handle \<lparr> rt_utcnow = ''t'', rt_asctime = ''a'', rt_date = ''d'',
       rt_percent = (\<lambda>msg args. Inl (''TypeError'', ''not all arguments converted during string formatting'')) \<rparr>
           \<lparr> r_name = ''app'', r_level = INFO, r_msg = ''m'', r_args = [], r_exc_info = None, r_attrs = [] \<rparr>
           (file_handler ''var/logs'')
           \<lparr> w_files = [], w_stdout = [], w_stderr = [], w_es_docs = [], w_records = [] \<rparr>))"
proof -
  let ?rt = "\<lparr> rt_utcnow = ''t'', rt_asctime = ''a'', rt_date = ''d'',
       rt_percent = (\<lambda>msg args. Inl (''TypeError'', ''not all arguments converted during string formatting'')) \<rparr>"
  let ?rD = "\<lparr> r_name = ''app'', r_level = DEBUG, r_msg = ''m'', r_args = [], r_exc_info = None, r_attrs = [] \<rparr>"
  let ?rI = "\<lparr> r_name = ''app'', r_level = INFO, r_msg = ''m'', r_args = [], r_exc_info = None, r_attrs = [] \<rparr>"
  let ?w = "\<lparr> w_files = [], w_stdout = [], w_stderr = [], w_es_docs = [], w_records = [] \<rparr>"
  let ?fs = "\<lparr> can_mkdir = (\<lambda>p. True), can_open = (\<lambda>p. True) \<rparr>"
  let ?self = "\<lparr> fl_name = ''app'', fl_log_dir = ''var/logs'', fl_service_name = ''svc'',
        fl_environment = ''prod'', fl_elastic_config = None \<rparr>"
  let ?reg' = "(\<lambda>n. None)(''app'' \<mapsto> \<lparr> lg_level = 10, lg_handlers =
        [file_handler ''var/logs'', json_handler ''var/logs'', console_handler] \<rparr>)"
  note sf = severity_filtering [where rt = ?rt and w = ?w and fs = ?fs and self = ?self
      and reg = "\<lambda>n. None" and reg' = ?reg' and d = "''var/logs''"]
  have h1: "[console_handler] \<noteq> []" by simp
  have a: "callHandlers ?rt ?rD [console_handler] ?w =
      fold (Handler_handle ?rt ?rD)
        (filter (\<lambda>h. h_level h \<le> levelno (r_level ?rD)) [console_handler]) ?w"
    by (rule sf [where r = ?rD and hs = "[console_handler]", THEN conjunct1, THEN mp, OF h1])
  have h2: "configure_logger ?fs ?self (\<lambda>n. None) = Inr ?reg' \<and>
      lg_handlers (getLogger (\<lambda>n. None) ''app'') = []"
    by (simp add: configure_logger_def getLogger_def)
  then have h2': "configure_logger ?fs ?self (\<lambda>n. None) = Inr ?reg' \<and>
      lg_handlers (getLogger (\<lambda>n. None) (fl_name ?self)) = []"
    by simp
  have "lg_handlers (getLogger ?reg' (fl_name ?self)) =
        [file_handler (fl_log_dir ?self), json_handler (fl_log_dir ?self), console_handler]"
    by (rule sf [where r = ?rD and hs = "[]", THEN conjunct2, THEN conjunct1, THEN mp,
          OF h2', THEN conjunct1])
  then have b: "lg_handlers (getLogger ?reg' ''app'') =
        [file_handler ''var/logs'', json_handler ''var/logs'', console_handler]"
    by simp
  have h3: "r_level ?rD = DEBUG" by simp
  have c: "callHandlers ?rt ?rD
      [file_handler ''var/logs'', json_handler ''var/logs'', console_handler] ?w =
      Handler_handle ?rt ?rD console_handler ?w"
    by (rule sf [where r = ?rD and hs = "[]", THEN conjunct2, THEN conjunct2, THEN conjunct1,
          THEN mp, OF h3])
  have h4: "r_level ?rI \<noteq> DEBUG" by simp
  have d: "callHandlers ?rt ?rI
      [file_handler ''var/logs'', json_handler ''var/logs'', console_handler] ?w =
      Handler_handle ?rt ?rI console_handler
        (Handler_handle ?rt ?rI (json_handler ''var/logs'')
          (Handler_handle ?rt ?rI (file_handler ''var/logs'') ?w))"
    by (rule sf [where r = ?rI and hs = "[]", THEN conjunct2, THEN conjunct2, THEN conjunct2,
          THEN mp, OF h4])
  show ?thesis
    apply (rule conjI, rule h1)
    apply (rule conjI, rule a)
    apply (rule conjI, rule h2)
    apply (rule conjI, rule b)
    apply (rule conjI, rule h3)
    apply (rule conjI, rule c)
    apply (rule conjI, rule h4)
    apply (rule d)
    done
qed

theorem configure_logger_idempotent_witness:
  "FastAPILogger_init \<lparr> can_mkdir = (\<lambda>p. True), can_open = (\<lambda>p. True) \<rparr>
     (Some ''app'') ''var/logs'' None ''svc'' ''prod'' (\<lambda>n. None)
   = Inr (\<lparr> fl_name = ''app'', fl_log_dir = ''var/logs'', fl_service_name = ''svc'',
            fl_environment = ''prod'', fl_elastic_config = None \<rparr>,
          (\<lambda>n. None)(''app'' \<mapsto> \<lparr> lg_level = 10, lg_handlers =
            [file_handler ''var/logs'', json_handler ''var/logs'', console_handler] \<rparr>)) \<and>
   FastAPILogger_init \<lparr> can_mkdir = (\<lambda>p. True), can_open = (\<lambda>p. True) \<rparr>
     (Some ''app'') ''other/dir'' None ''svc2'' ''dev''
     ((\<lambda>n. None)(''app'' \<mapsto> \<lparr> lg_level = 10, lg_handlers =
            [file_handler ''var/logs'', json_handler ''var/logs'', console_handler] \<rparr>))
   = Inr (\<lparr> fl_name = ''app'', fl_log_dir = ''other/dir'', fl_service_name = ''svc2'',
            fl_environment = ''dev'', fl_elastic_config = None \<rparr>,
          (\<lambda>n. None)(''app'' \<mapsto> \<lparr> lg_level = 10, lg_handlers =
            [file_handler ''var/logs'', json_handler ''var/logs'', console_handler] \<rparr>)) \<and>
   lg_handlers (getLogger ((\<lambda>n. None)(''app'' \<mapsto> \<lparr> lg_level = 10, lg_handlers =
            [file_handler ''var/logs'', json_handler ''var/logs'', console_handler] \<rparr>)) ''app'')
   = [file_handler ''var/logs'', json_handler ''var/logs'', console_handler]"
proof -
  let ?fs = "\<lparr> can_mkdir = (\<lambda>p. True), can_open = (\<lambda>p. True) \<rparr>"
  let ?l1 = "\<lparr> fl_name = ''app'', fl_log_dir = ''var/logs'', fl_service_name = ''svc'',
            fl_environment = ''prod'', fl_elastic_config = None \<rparr>"
  let ?l2 = "\<lparr> fl_name = ''app'', fl_log_dir = ''other/dir'', fl_service_name = ''svc2'',
            fl_environment = ''dev'', fl_elastic_config = None \<rparr>"
  let ?reg1 = "(\<lambda>n. None)(''app'' \<mapsto> \<lparr> lg_level = 10, lg_handlers =
            [file_handler ''var/logs'', json_handler ''var/logs'', console_handler] \<rparr>)"
  have i1: "FastAPILogger_init ?fs (Some ''app'') ''var/logs'' None ''svc'' ''prod'' (\<lambda>n. None)
      = Inr (?l1, ?reg1)"
    by (simp add: FastAPILogger_init_def configure_logger_def getLogger_def)
  have i2: "FastAPILogger_init ?fs (Some ''app'') ''other/dir'' None ''svc2'' ''dev'' ?reg1
      = Inr (?l2, ?reg1)"
    by (simp add: FastAPILogger_init_def configure_logger_def getLogger_def)
  have e: "lg_handlers (getLogger (\<lambda>n. None) (fl_name ?l1)) = []"
    by (simp add: getLogger_def)
  have "lg_handlers (getLogger ?reg1 (fl_name ?l2)) =
      [file_handler ''var/logs'', json_handler ''var/logs'', console_handler]"
    by (rule configure_logger_idempotent [OF i1 i2, THEN conjunct2, THEN conjunct2,
          THEN conjunct2, THEN mp, OF e])
  then have r: "lg_handlers (getLogger ?reg1 ''app'') =
      [file_handler ''var/logs'', json_handler ''var/logs'', console_handler]"
    by simp
  show ?thesis
    apply (rule conjI, rule i1)
    apply (rule conjI, rule i2)
    apply (rule r)
    done
qed

subsection \<open>The JSON document of a record\<close>

lemmas model_defs =
  FastAPILogger_init_def configure_logger_def getLogger_def info_def log_def get_log_args_def
  ContextVar_get_def as_dict_def asdict_def dict_update_def Logger_log_def getEffectiveLevel_def
  makeRecord_def keys_def LogRecord_builtin_def callHandlers_def Handler_handle_def
  file_handler_def json_handler_def console_handler_def LineFormatter_format_def attr_def
  JsonFormatter_format_def getMessage_def json_dumps_def handleError_def Let_def

text \<open>
  C9 does not hold of the code. \<open>JsonFormatter.format\<close> merges \<open>record.extra\<close>, but
  the logging library stores every key of the merged \<open>extra\<close> as an attribute of its
  own, so a record has an \<open>extra\<close> attribute only when the merged mapping has a key
  of that name. Here a fresh facade logs \<open>info("hello", extra={"k": 1})\<close> under the
  default context: the line written to \<open>app.json.log\<close> has the four reserved keys and
  nothing else; \<open>k\<close>, \<open>request_id\<close>, \<open>user_id\<close>, \<open>service\<close> and
  \<open>environment\<close> are missing.
\<close>

theorem json_document_misses_extra:
  "(case FastAPILogger_init \<lparr> can_mkdir = (\<lambda>p. True), can_open = (\<lambda>p. True) \<rparr>
           (Some ''app'') ''var/logs'' None ''svc'' ''development'' (\<lambda>n. None) of
      Inl e \<Rightarrow> None
    | Inr (self, reg) \<Rightarrow>
        (case info self
                \<lparr> rt_utcnow = ''2024-01-01T00:00:00'', rt_asctime = ''2024-01-01 00:00:00,000'',
                  rt_date = ''2024.01.01'',
       rt_percent = (\<lambda>msg args. Inl (''TypeError'', ''not all arguments converted during string formatting'')) \<rparr>
                ''hello'' [] (Some [(''k'', PInt 1)]) False None
                \<lparr> context_var =
                    \<lparr> cv_default = Some \<lparr> timestamp = PStr ''t0'', request_id = PStr ''-'',
                                          user_id = PStr ''-'', service = PStr ''-'',
                                          environment = PStr ''development'', extra = PNone \<rparr>,
                      cv_value = None \<rparr>,
                  loggers = reg,
                  world = \<lparr> w_files = [], w_stdout = [], w_stderr = [], w_es_docs = [],
                            w_records = [] \<rparr> \<rparr> of
           Inl e \<Rightarrow> None
         | Inr st \<Rightarrow> Some (map_of (w_files (world st)) ''var/logs/app.json.log'')))
   = Some (Some (JsonLine (JsonText (PDict
       [(''timestamp'', PStr ''2024-01-01T00:00:00''), (''level'', PStr ''INFO''),
        (''message'', PStr ''hello''), (''logger'', PStr ''app'')]))))"
  by (simp add: model_defs)

subsection \<open>The request boundary hook\<close>

lemma keys_AList_update: "set (keys (AList.update k v l)) = insert k (set (keys l))"
  by (induction l) (auto simp: keys_def)

lemma keys_dict_update: "set (keys (dict_update d e)) = set (keys d) \<union> set (keys e)"
  unfolding dict_update_def
proof (induction e arbitrary: d)
  case Nil
  show ?case by (simp add: keys_def)
next
  case (Cons x e)
  show ?case
    by (simp add: Cons.IH keys_AList_update) (auto simp: keys_def)
qed

lemma keys_as_dict: "set (keys (as_dict c)) \<subseteq> set RequestContext_fields"
  by (auto simp: keys_def as_dict_def asdict_def RequestContext_fields_def)

lemma fields_not_reserved:
  "k \<in> set RequestContext_fields \<Longrightarrow>
   \<not> (k \<in> set [''message'', ''asctime''] \<or> k \<in> set LogRecord_builtin)"
  unfolding RequestContext_fields_def LogRecord_builtin_def
  by (elim disjE | simp)+


lemma makeRecord_context_only:
  "makeRecord name lvl msg args ei (dict_update [] (as_dict c)) =
     Inr \<lparr> r_name = name, r_level = lvl, r_msg = msg, r_args = args, r_exc_info = ei,
           r_attrs = dict_update [] (as_dict c) \<rparr>"
proof -
  have "\<forall>k \<in> set (keys (dict_update [] (as_dict c))).
          \<not> (k \<in> set [''message'', ''asctime''] \<or> k \<in> set LogRecord_builtin)"
  proof
    fix k assume "k \<in> set (keys (dict_update [] (as_dict c)))"
    then have "k \<in> set (keys []) \<union> set (keys (as_dict c))"
      by (simp only: keys_dict_update)
    then have "k \<in> set (keys (as_dict c))"
      by (simp add: keys_def)
    with keys_as_dict have "k \<in> set RequestContext_fields" by (rule subsetD)
    then show "\<not> (k \<in> set [''message'', ''asctime''] \<or> k \<in> set LogRecord_builtin)"
      by (rule fields_not_reserved)
  qed
  then have ne: "\<not> (\<exists>k \<in> set (keys (dict_update [] (as_dict c))).
          k \<in> set [''message'', ''asctime''] \<or> k \<in> set LogRecord_builtin)"
    by (simp only: bex_simps)
  show ?thesis
    by (simp only: makeRecord_def if_not_P [OF ne])
qed

lemma w_records_Handler_handle: "w_records (Handler_handle rt r h w) = w_records w"
  by (simp add: Handler_handle_def handleError_def split: handler_kind.splits sum.splits)

lemma w_records_callHandlers_loop: "w_records (callHandlers_loop rt r hs w) = w_records w"
  by (induction hs arbitrary: w) (simp_all add: w_records_Handler_handle)

lemma w_records_callHandlers: "w_records (callHandlers rt r hs w) = w_records w"
  by (simp add: callHandlers_def w_records_callHandlers_loop handleError_def split: sum.splits)

lemma log_context_only:
  assumes lvl: "getEffectiveLevel (getLogger (loggers st) (fl_name self)) \<le> levelno lv"
    and cv: "cv_value (context_var st) = Some c"
  shows "\<exists>r w'. log self rt lv msg [] None ei handling st = Inr (st\<lparr>world := w'\<rparr>) \<and>
           w_records w' = w_records (world st) @ [r] \<and>
           r_level r = lv \<and> r_msg r = msg \<and>
           r_exc_info r = (if ei then Some handling else None)"
proof -
  let ?r = "\<lparr> r_name = fl_name self, r_level = lv, r_msg = msg, r_args = [],
              r_exc_info = (if ei then Some handling else None),
              r_attrs = dict_update [] (as_dict c) \<rparr>"
  let ?w' = "callHandlers rt ?r (lg_handlers (getLogger (loggers st) (fl_name self)))
               ((world st)\<lparr>w_records := w_records (world st) @ [?r]\<rparr>)"
  from cv have g: "get_log_args None (context_var st) = Inr (dict_update [] (as_dict c))"
    by (simp add: get_log_args_def ContextVar_get_def)
  from lvl have nl: "\<not> levelno lv < getEffectiveLevel (getLogger (loggers st) (fl_name self))"
    by simp
  have "log self rt lv msg [] None ei handling st = Inr (st\<lparr>world := ?w'\<rparr>)"
    unfolding log_def g Logger_log_def
    by (simp only: nl makeRecord_context_only if_False sum.case)
  moreover have "w_records ?w' = w_records (world st) @ [?r]"
    by (simp add: w_records_callHandlers)
  moreover have "r_level ?r = lv" "r_msg ?r = msg"
    "r_exc_info ?r = (if ei then Some handling else None)"
    by simp_all
  ultimately show ?thesis by blast
qed


lemma hook_set_context:
  "set_context self now [(''request_id'', PStr rid), (''extra'', PDict e)] cv =
     Inr (cv\<lparr>cv_value := Some
        \<lparr> timestamp = PStr now, request_id = PStr rid, user_id = PStr ''-'',
          service = PStr (fl_service_name self), environment = PStr (fl_environment self),
          extra = PDict e \<rparr>\<rparr>)"
  by (simp add: set_context_def RequestContext_init_def keys_def RequestContext_fields_def
        ContextVar_set_def kwarg_def post_init_def)

lemma except_clause_Exc:
  assumes lvl: "getEffectiveLevel (getLogger (loggers st) (fl_name self)) \<le> levelno INFO"
    and cv: "cv_value (context_var st) = Some c0"
  shows "\<exists>st' r. except_clause self rt rq (Exc c m) st = (Inl (Exc c m), st') \<and>
           w_records (world st') = w_records (world st) @ [r] \<and>
           r_level r = ERROR \<and>
           r_msg r = ''Request failed - '' @ rq_method rq @ '' '' @ rq_path rq \<and>
           r_exc_info r = Some (Some (Exc c m))"
proof -
  from lvl have lvl': "getEffectiveLevel (getLogger (loggers st) (fl_name self)) \<le> levelno ERROR"
    by simp
  from log_context_only [OF lvl' cv, of rt
      "''Request failed - '' @ rq_method rq @ '' '' @ rq_path rq" True "Some (Exc c m)"]
  obtain r w' where
    l: "log self rt ERROR (''Request failed - '' @ rq_method rq @ '' '' @ rq_path rq)
          [] None True (Some (Exc c m)) st = Inr (st\<lparr>world := w'\<rparr>)"
    and rec: "w_records w' = w_records (world st) @ [r]" "r_level r = ERROR"
      "r_msg r = ''Request failed - '' @ rq_method rq @ '' '' @ rq_path rq"
      "r_exc_info r = Some (Some (Exc c m))"
    by auto
  have "except_clause self rt rq (Exc c m) st = (Inl (Exc c m), st\<lparr>world := w'\<rparr>)"
    by (simp add: except_clause_def error_def l del: append_Cons append_Nil)
  with rec show ?thesis by auto
qed

lemma except_clause_BaseExc:
  "except_clause self rt rq (BaseExc c m) st = (Inl (BaseExc c m), st)"
  by (simp add: except_clause_def)

text \<open>
  C6, as the code has it. The logger is enabled for INFO (every facade sets its
  logger to DEBUG). The hook first logs the INFO record "Request started"; after that
  it adds exactly one record when the wrapped call returns (INFO "Request completed",
  and the response is returned) and exactly one when the wrapped call raises an
  exception derived from \<open>Exception\<close> (ERROR "Request failed" with the exception
  captured, and the same exception is raised again). An exception that is not derived
  from \<open>Exception\<close>, such as a cancellation, passes \<open>except Exception\<close>: it is
  raised again unchanged and the hook adds no record.
\<close>

theorem hook_one_terminal_record:
  assumes lvl: "getEffectiveLevel (getLogger (loggers st) (fl_name self)) \<le> levelno INFO"
  shows "\<exists>w2 r0.
     w_records w2 = w_records (world st) @ [r0] \<and> r_level r0 = INFO \<and>
     r_msg r0 = ''Request started - '' @ rq_method rq @ '' '' @ rq_path rq \<and>
     (case call_next w2 of
        (Inr status_code, w3) \<Rightarrow>
          (\<exists>st' r. logging_middleware self rt rid rq call_next st = (Inr status_code, st') \<and>
             w_records (world st') = w_records w3 @ [r] \<and> r_level r = INFO \<and>
             r_msg r = ''Request completed - '' @ rq_method rq @ '' '' @ rq_path rq @
                       ''- Status: '' @ str_nat status_code \<and>
             r_exc_info r = None)
      | (Inl (Exc c m), w3) \<Rightarrow>
          (\<exists>st' r. logging_middleware self rt rid rq call_next st = (Inl (Exc c m), st') \<and>
             w_records (world st') = w_records w3 @ [r] \<and> r_level r = ERROR \<and>
             r_msg r = ''Request failed - '' @ rq_method rq @ '' '' @ rq_path rq \<and>
             r_exc_info r = Some (Some (Exc c m)))
      | (Inl (BaseExc c m), w3) \<Rightarrow>
          (\<exists>st'. logging_middleware self rt rid rq call_next st = (Inl (BaseExc c m), st') \<and>
             w_records (world st') = w_records w3))"
proof -
  let ?e1 = "[(''path'', PStr (rq_path rq)), (''method'', PStr (rq_method rq))]"
  let ?c1 = "\<lparr> timestamp = PStr (rt_utcnow rt), request_id = PStr rid, user_id = PStr ''-'',
          service = PStr (fl_service_name self), environment = PStr (fl_environment self),
          extra = PDict ?e1 \<rparr>"
  let ?st1 = "st\<lparr>context_var := (context_var st)\<lparr>cv_value := Some ?c1\<rparr>\<rparr>"
  have s1: "set_context self (rt_utcnow rt) [(''request_id'', PStr rid), (''extra'', PDict ?e1)]
              (context_var st) = Inr ((context_var st)\<lparr>cv_value := Some ?c1\<rparr>)"
    by (rule hook_set_context)
  have lvl1: "getEffectiveLevel (getLogger (loggers ?st1) (fl_name self)) \<le> levelno INFO"
    using lvl by simp
  have cv1: "cv_value (context_var ?st1) = Some ?c1" by simp
  from log_context_only [OF lvl1 cv1, of rt
      "''Request started - '' @ rq_method rq @ '' '' @ rq_path rq" False None]
  obtain r0 w2 where
    l1: "log self rt INFO (''Request started - '' @ rq_method rq @ '' '' @ rq_path rq)
           [] None False None ?st1 = Inr (?st1\<lparr>world := w2\<rparr>)"
    and rec0: "w_records w2 = w_records (world st) @ [r0]" "r_level r0 = INFO"
      "r_msg r0 = ''Request started - '' @ rq_method rq @ '' '' @ rq_path rq"
    by auto
  let ?st2 = "?st1\<lparr>world := w2\<rparr>"
  obtain out w3 where cn: "call_next w2 = (out, w3)" by (cases "call_next w2")
  let ?st3 = "?st2\<lparr>world := w3\<rparr>"
  have lvl3: "getEffectiveLevel (getLogger (loggers ?st3) (fl_name self)) \<le> levelno INFO"
    using lvl by simp
  have cv3: "cv_value (context_var ?st3) = Some ?c1" by simp
  have tail: "case (out, w3) of
        (Inr status_code, w3) \<Rightarrow>
          (\<exists>st' r. logging_middleware self rt rid rq call_next st = (Inr status_code, st') \<and>
             w_records (world st') = w_records w3 @ [r] \<and> r_level r = INFO \<and>
             r_msg r = ''Request completed - '' @ rq_method rq @ '' '' @ rq_path rq @
                       ''- Status: '' @ str_nat status_code \<and>
             r_exc_info r = None)
      | (Inl (Exc c m), w3) \<Rightarrow>
          (\<exists>st' r. logging_middleware self rt rid rq call_next st = (Inl (Exc c m), st') \<and>
             w_records (world st') = w_records w3 @ [r] \<and> r_level r = ERROR \<and>
             r_msg r = ''Request failed - '' @ rq_method rq @ '' '' @ rq_path rq \<and>
             r_exc_info r = Some (Some (Exc c m)))
      | (Inl (BaseExc c m), w3) \<Rightarrow>
          (\<exists>st'. logging_middleware self rt rid rq call_next st = (Inl (BaseExc c m), st') \<and>
             w_records (world st') = w_records w3)"
  proof (cases out)
    case (Inl e)
    have lm: "logging_middleware self rt rid rq call_next st = except_clause self rt rq e ?st3"
      by (simp add: logging_middleware_def Let_def s1 info_def l1 cn Inl
            del: append_Cons append_Nil)
    show ?thesis
    proof (cases e)
      case (Exc c m)
      from except_clause_Exc [OF lvl3 cv3, of rt rq c m]
      show ?thesis by (simp add: Inl Exc lm)
    next
      case (BaseExc c m)
      show ?thesis by (simp add: Inl BaseExc lm except_clause_BaseExc)
    qed
  next
    case (Inr status_code)
    let ?e4 = "[(''path'', PStr (rq_path rq)), (''method'', PStr (rq_method rq)),
                (''status_code'', PInt (int status_code))]"
    let ?c4 = "\<lparr> timestamp = PStr (rt_utcnow rt), request_id = PStr rid, user_id = PStr ''-'',
          service = PStr (fl_service_name self), environment = PStr (fl_environment self),
          extra = PDict ?e4 \<rparr>"
    let ?st4 = "?st3\<lparr>context_var := (context_var ?st3)\<lparr>cv_value := Some ?c4\<rparr>\<rparr>"
    have s4: "set_context self (rt_utcnow rt)
                [(''request_id'', PStr rid), (''extra'', PDict ?e4)] (context_var ?st3)
              = Inr ((context_var ?st3)\<lparr>cv_value := Some ?c4\<rparr>)"
      by (rule hook_set_context)
    have lvl4: "getEffectiveLevel (getLogger (loggers ?st4) (fl_name self)) \<le> levelno INFO"
      using lvl by simp
    have cv4: "cv_value (context_var ?st4) = Some ?c4" by simp
    from log_context_only [OF lvl4 cv4, of rt
        "''Request completed - '' @ rq_method rq @ '' '' @ rq_path rq @
           ''- Status: '' @ str_nat status_code" False None]
    obtain r w5 where
      l4: "log self rt INFO (''Request completed - '' @ rq_method rq @ '' '' @ rq_path rq @
             ''- Status: '' @ str_nat status_code) [] None False None ?st4
           = Inr (?st4\<lparr>world := w5\<rparr>)"
      and rec: "w_records w5 = w_records w3 @ [r]" "r_level r = INFO"
        "r_msg r = ''Request completed - '' @ rq_method rq @ '' '' @ rq_path rq @
           ''- Status: '' @ str_nat status_code"
        "r_exc_info r = None"
      by auto
    have lm: "logging_middleware self rt rid rq call_next st =
                (Inr status_code, ?st4\<lparr>world := w5\<rparr>)"
      using s4 l4
      by (simp add: logging_middleware_def Let_def s1 info_def l1 cn Inr
            del: append_Cons append_Nil)
    show ?thesis
      using rec by (simp add: Inr lm)
  qed
  show ?thesis
    apply (rule exI [of _ w2], rule exI [of _ r0])
    apply (rule conjI, rule rec0(1))
    apply (rule conjI, rule rec0(2))
    apply (rule conjI, rule rec0(3))
    apply (unfold cn)
    apply (rule tail)
    done
qed

text \<open>The statement of C6 itself fails: the wrapped call is cancelled, and the only
  record of the request is "Request started".\<close>

theorem hook_cancelled_no_terminal_record:
  "(case logging_middleware
      \<lparr> fl_name = ''app'', fl_log_dir = ''var/logs'', fl_service_name = ''svc'',
         fl_environment = ''prod'', fl_elastic_config = None \<rparr>
      \<lparr> rt_utcnow = ''t'', rt_asctime = ''a'', rt_date = ''d'',
       rt_percent = (\<lambda>msg args. Inl (''TypeError'', ''not all arguments converted during string formatting'')) \<rparr> ''ab12cd34'' \<lparr> rq_method = ''GET'', rq_path = ''/items'' \<rparr>
      (\<lambda>w. (Inl (BaseExc ''CancelledError'' []), w))
      \<lparr> context_var = \<lparr> cv_default = None, cv_value = None \<rparr>,
         loggers = (\<lambda>n. None)(''app'' \<mapsto>
                     \<lparr> lg_level = 10, lg_handlers = [console_handler] \<rparr>),
         world = \<lparr> w_files = [], w_stdout = [], w_stderr = [], w_es_docs = [],
                   w_records = [] \<rparr> \<rparr> of
      (res, st') \<Rightarrow> (res, map (\<lambda>r. (r_level r, r_msg r)) (w_records (world st'))))
   = (Inl (BaseExc ''CancelledError'' []), [(INFO, ''Request started - GET /items'')])"
  by (simp add: logging_middleware_def except_clause_def set_context_def
        RequestContext_init_def RequestContext_fields_def ContextVar_set_def kwarg_def
        post_init_def model_defs)

theorem hook_one_terminal_record_witness:
  "getEffectiveLevel (getLogger (loggers
      \<lparr> context_var = \<lparr> cv_default = None, cv_value = None \<rparr>,
         loggers = (\<lambda>n. None)(''app'' \<mapsto>
                     \<lparr> lg_level = 10, lg_handlers = [console_handler] \<rparr>),
         world = \<lparr> w_files = [], w_stdout = [], w_stderr = [], w_es_docs = [],
                   w_records = [] \<rparr> \<rparr>) (fl_name
      \<lparr> fl_name = ''app'', fl_log_dir = ''var/logs'', fl_service_name = ''svc'',
         fl_environment = ''prod'', fl_elastic_config = None \<rparr>)) \<le> levelno INFO \<and>
   (\<exists>(w2::world) r0.
     w_records w2 = w_records (world
       \<lparr> context_var = \<lparr> cv_default = None, cv_value = None \<rparr>,
         loggers = (\<lambda>n. None)(''app'' \<mapsto>
                     \<lparr> lg_level = 10, lg_handlers = [console_handler] \<rparr>),
         world = \<lparr> w_files = [], w_stdout = [], w_stderr = [], w_es_docs = [],
                   w_records = [] \<rparr> \<rparr>) @ [r0] \<and> r_level r0 = INFO \<and>
     r_msg r0 = ''Request started - '' @ rq_method \<lparr> rq_method = ''GET'', rq_path = ''/items'' \<rparr> @ '' '' @ rq_path \<lparr> rq_method = ''GET'', rq_path = ''/items'' \<rparr> \<and>
     (case (\<lambda>w. (Inr 200, w)) w2 of
        (Inr status_code, w3) \<Rightarrow>
          (\<exists>st' r. logging_middleware \<lparr> fl_name = ''app'', fl_log_dir = ''var/logs'', fl_service_name = ''svc'',
         fl_environment = ''prod'', fl_elastic_config = None \<rparr> \<lparr> rt_utcnow = ''t'', rt_asctime = ''a'', rt_date = ''d'',
       rt_percent = (\<lambda>msg args. Inl (''TypeError'', ''not all arguments converted during string formatting'')) \<rparr> ''ab12cd34'' \<lparr> rq_method = ''GET'', rq_path = ''/items'' \<rparr> (\<lambda>w. (Inr 200, w))
                      \<lparr> context_var = \<lparr> cv_default = None, cv_value = None \<rparr>,
         loggers = (\<lambda>n. None)(''app'' \<mapsto>
                     \<lparr> lg_level = 10, lg_handlers = [console_handler] \<rparr>),
         world = \<lparr> w_files = [], w_stdout = [], w_stderr = [], w_es_docs = [],
                   w_records = [] \<rparr> \<rparr> = (Inr status_code, st') \<and>
             w_records (world st') = w_records w3 @ [r] \<and> r_level r = INFO \<and>
             r_msg r = ''Request completed - '' @ rq_method \<lparr> rq_method = ''GET'', rq_path = ''/items'' \<rparr> @ '' '' @ rq_path \<lparr> rq_method = ''GET'', rq_path = ''/items'' \<rparr> @
                       ''- Status: '' @ str_nat status_code \<and>
             r_exc_info r = None)
      | (Inl (Exc c m), w3) \<Rightarrow>
          (\<exists>st' r. logging_middleware \<lparr> fl_name = ''app'', fl_log_dir = ''var/logs'', fl_service_name = ''svc'',
         fl_environment = ''prod'', fl_elastic_config = None \<rparr> \<lparr> rt_utcnow = ''t'', rt_asctime = ''a'', rt_date = ''d'',
       rt_percent = (\<lambda>msg args. Inl (''TypeError'', ''not all arguments converted during string formatting'')) \<rparr> ''ab12cd34'' \<lparr> rq_method = ''GET'', rq_path = ''/items'' \<rparr> (\<lambda>w. (Inr 200, w))
                      \<lparr> context_var = \<lparr> cv_default = None, cv_value = None \<rparr>,
         loggers = (\<lambda>n. None)(''app'' \<mapsto>
                     \<lparr> lg_level = 10, lg_handlers = [console_handler] \<rparr>),
         world = \<lparr> w_files = [], w_stdout = [], w_stderr = [], w_es_docs = [],
                   w_records = [] \<rparr> \<rparr> = (Inl (Exc c m), st') \<and>
             w_records (world st') = w_records w3 @ [r] \<and> r_level r = ERROR \<and>
             r_msg r = ''Request failed - '' @ rq_method \<lparr> rq_method = ''GET'', rq_path = ''/items'' \<rparr> @ '' '' @ rq_path \<lparr> rq_method = ''GET'', rq_path = ''/items'' \<rparr> \<and>
             r_exc_info r = Some (Some (Exc c m)))
      | (Inl (BaseExc c m), w3) \<Rightarrow>
          (\<exists>st'. logging_middleware \<lparr> fl_name = ''app'', fl_log_dir = ''var/logs'', fl_service_name = ''svc'',
         fl_environment = ''prod'', fl_elastic_config = None \<rparr> \<lparr> rt_utcnow = ''t'', rt_asctime = ''a'', rt_date = ''d'',
       rt_percent = (\<lambda>msg args. Inl (''TypeError'', ''not all arguments converted during string formatting'')) \<rparr> ''ab12cd34'' \<lparr> rq_method = ''GET'', rq_path = ''/items'' \<rparr> (\<lambda>w. (Inr 200, w))
                      \<lparr> context_var = \<lparr> cv_default = None, cv_value = None \<rparr>,
         loggers = (\<lambda>n. None)(''app'' \<mapsto>
                     \<lparr> lg_level = 10, lg_handlers = [console_handler] \<rparr>),
         world = \<lparr> w_files = [], w_stdout = [], w_stderr = [], w_es_docs = [],
                   w_records = [] \<rparr> \<rparr> = (Inl (BaseExc c m), st') \<and>
             w_records (world st') = w_records w3)))"
proof -
  have h: "getEffectiveLevel (getLogger (loggers
      \<lparr> context_var = \<lparr> cv_default = None, cv_value = None \<rparr>,
         loggers = (\<lambda>n. None)(''app'' \<mapsto>
                     \<lparr> lg_level = 10, lg_handlers = [console_handler] \<rparr>),
         world = \<lparr> w_files = [], w_stdout = [], w_stderr = [], w_es_docs = [],
                   w_records = [] \<rparr> \<rparr>) (fl_name
      \<lparr> fl_name = ''app'', fl_log_dir = ''var/logs'', fl_service_name = ''svc'',
         fl_environment = ''prod'', fl_elastic_config = None \<rparr>)) \<le> levelno INFO"
    by (simp add: getEffectiveLevel_def getLogger_def)
  show ?thesis
    by (rule conjI, rule h, rule hook_one_terminal_record [OF h])
qed

subsection \<open>Failure of the remote store\<close>

lemma ElasticsearchHandler_emit_failure:
  assumes fail: "\<forall>i doc. es_index i doc = Some (Exc c m)"
  shows "\<exists>w'. ElasticsearchHandler_emit index_prefix rt es_index r w = Inr w' \<and>
           w_stderr w' = w_stderr w @
             [''Error sending log to Elasticsearch: '' @
              (case getMessage rt r of
                 Inl e \<Rightarrow> str_exc e
               | Inr message \<Rightarrow>
                   (case map_of (r_attrs r) ''extra'' of
                      None \<Rightarrow> m
                    | Some (PDict e) \<Rightarrow> m
                    | Some v \<Rightarrow> ''object is not a mapping'')) @ [CHR 0x0A]] \<and>
           w_es_docs w' = w_es_docs w \<and> w_files w' = w_files w \<and>
           w_records w' = w_records w"
proof (cases "getMessage rt r")
  case (Inl e)
  from getMessage_raises_Exception [OF Inl] obtain c' m' where "e = Exc c' m'" by blast
  with Inl show ?thesis
    by (simp add: ElasticsearchHandler_emit_def Let_def del: append_Cons append_Nil)
next
  case (Inr message)
  show ?thesis
  proof (cases "map_of (r_attrs r) ''extra''")
    case None
    with Inr show ?thesis
      by (simp add: ElasticsearchHandler_emit_def Let_def fail del: append_Cons append_Nil)
  next
    case (Some v)
    with Inr show ?thesis
      by (cases v)
         (simp_all add: ElasticsearchHandler_emit_def Let_def fail TypeError_def
            del: append_Cons append_Nil)
  qed
qed

lemma makeRecord_fields:
  assumes "makeRecord name lvl msg args ei extra_d = Inr r"
  shows "r = \<lparr> r_name = name, r_level = lvl, r_msg = msg, r_args = args, r_exc_info = ei,
               r_attrs = extra_d \<rparr>"
proof (cases "\<exists>k \<in> set (keys extra_d).
                k \<in> set [''message'', ''asctime''] \<or> k \<in> set LogRecord_builtin")
  case True
  from assms show ?thesis
    by (simp only: makeRecord_def if_P [OF True] sum.distinct)
next
  case False
  from assms show ?thesis
    by (simp only: makeRecord_def if_not_P [OF False] sum.inject)
qed

lemma Handler_handle_es: "Handler_handle rt r es_handler w = w"
  by (simp add: Handler_handle_def es_handler_def)

lemma info_with_remote_sink:
  assumes hs: "lg_handlers (getLogger (loggers st) (fl_name self)) =
                 [file_handler d, json_handler d, console_handler, es_handler]"
    and lvl: "getEffectiveLevel (getLogger (loggers st) (fl_name self)) \<le> levelno INFO"
    and args: "get_log_args extra_kw (context_var st) = Inr extra_d"
    and rec: "makeRecord (fl_name self) INFO msg args None extra_d = Inr r"
  shows "info self rt msg args extra_kw False None st =
     Inr (st\<lparr>world :=
       Handler_handle rt r console_handler
         (Handler_handle rt r (json_handler d)
           (Handler_handle rt r (file_handler d)
             ((world st)\<lparr>w_records := w_records (world st) @ [r]\<rparr>)))\<rparr>)"
proof -
  from lvl have nl: "\<not> levelno INFO < getEffectiveLevel (getLogger (loggers st) (fl_name self))"
    by simp
  have lv: "h_level (file_handler d) \<le> levelno (r_level r)"
      "h_level (json_handler d) \<le> levelno (r_level r)"
      "h_level console_handler \<le> levelno (r_level r)"
      "h_level es_handler \<le> levelno (r_level r)"
    by (simp_all add: makeRecord_fields [OF rec] file_handler_def json_handler_def
          console_handler_def es_handler_def)
  have ch: "callHandlers rt r [file_handler d, json_handler d, console_handler, es_handler] w =
      Handler_handle rt r console_handler
         (Handler_handle rt r (json_handler d) (Handler_handle rt r (file_handler d) w))" for w
    by (simp add: callHandlers_def lv Handler_handle_es)
  show ?thesis
    unfolding info_def log_def args Logger_log_def
    by (simp only: nl if_False rec sum.case hs ch)
qed

text \<open>
  C5. When every call of the remote store fails with an exception derived from
  \<open>Exception\<close>, the body of \<open>ElasticsearchHandler.emit\<close> returns normally, writes
  the error to the standard error stream (the error of the store, or the error met
  before it while the document was built) and stores no document: the record is
  dropped. In the logging call itself the remote handler raises nothing and changes
  nothing, so with the three local sinks and the remote sink installed \<open>info\<close>
  returns normally and its effect is that of the text file sink, the JSON file sink
  and the console sink handling the record.
\<close>

theorem remote_failure_is_contained:
  "((\<forall>i doc. es_index i doc = Some (Exc c m)) \<longrightarrow>
      (\<exists>w'. ElasticsearchHandler_emit index_prefix rt es_index r w = Inr w' \<and>
           w_stderr w' = w_stderr w @
             [''Error sending log to Elasticsearch: '' @
              (case getMessage rt r of
                 Inl e \<Rightarrow> str_exc e
               | Inr message \<Rightarrow>
                   (case map_of (r_attrs r) ''extra'' of
                      None \<Rightarrow> m
                    | Some (PDict e) \<Rightarrow> m
                    | Some v \<Rightarrow> ''object is not a mapping'')) @ [CHR 0x0A]] \<and>
           w_es_docs w' = w_es_docs w \<and> w_files w' = w_files w \<and>
           w_records w' = w_records w)) \<and>
   Handler_handle rt r es_handler w = w \<and>
   (lg_handlers (getLogger (loggers st) (fl_name self)) =
      [file_handler d, json_handler d, console_handler, es_handler] \<and>
    getEffectiveLevel (getLogger (loggers st) (fl_name self)) \<le> levelno INFO \<and>
    get_log_args extra_kw (context_var st) = Inr extra_d \<and>
    makeRecord (fl_name self) INFO msg args None extra_d = Inr r' \<longrightarrow>
      info self rt msg args extra_kw False None st =
        Inr (st\<lparr>world :=
          Handler_handle rt r' console_handler
            (Handler_handle rt r' (json_handler d)
              (Handler_handle rt r' (file_handler d)
                ((world st)\<lparr>w_records := w_records (world st) @ [r']\<rparr>)))\<rparr>))"
proof (intro conjI impI)
  assume "\<forall>i doc. es_index i doc = Some (Exc c m)"
  then show "\<exists>w'. ElasticsearchHandler_emit index_prefix rt es_index r w = Inr w' \<and>
           w_stderr w' = w_stderr w @
             [''Error sending log to Elasticsearch: '' @
              (case getMessage rt r of
                 Inl e \<Rightarrow> str_exc e
               | Inr message \<Rightarrow>
                   (case map_of (r_attrs r) ''extra'' of
                      None \<Rightarrow> m
                    | Some (PDict e) \<Rightarrow> m
                    | Some v \<Rightarrow> ''object is not a mapping'')) @ [CHR 0x0A]] \<and>
           w_es_docs w' = w_es_docs w \<and> w_files w' = w_files w \<and>
           w_records w' = w_records w"
    by (rule ElasticsearchHandler_emit_failure)
next
  show "Handler_handle rt r es_handler w = w"
    by (rule Handler_handle_es)
next
  assume a: "lg_handlers (getLogger (loggers st) (fl_name self)) =
      [file_handler d, json_handler d, console_handler, es_handler] \<and>
    getEffectiveLevel (getLogger (loggers st) (fl_name self)) \<le> levelno INFO \<and>
    get_log_args extra_kw (context_var st) = Inr extra_d \<and>
    makeRecord (fl_name self) INFO msg args None extra_d = Inr r'"
  show "info self rt msg args extra_kw False None st =
        Inr (st\<lparr>world :=
          Handler_handle rt r' console_handler
            (Handler_handle rt r' (json_handler d)
              (Handler_handle rt r' (file_handler d)
                ((world st)\<lparr>w_records := w_records (world st) @ [r']\<rparr>)))\<rparr>)"
    by (rule info_with_remote_sink
          [OF a [THEN conjunct1] a [THEN conjunct2, THEN conjunct1]
              a [THEN conjunct2, THEN conjunct2, THEN conjunct1]
              a [THEN conjunct2, THEN conjunct2, THEN conjunct2]])
qed

theorem remote_failure_is_contained_witness:
  "(\<forall>(i::string) (doc::pydict).
      (\<lambda>(i::string) (doc::pydict). Some (Exc ''ConnectionError'' ''Connection refused'')) i doc
       = Some (Exc ''ConnectionError'' ''Connection refused'')) \<and>
   (\<exists>w'. ElasticsearchHandler_emit ''fastapi-logs'' \<lparr> rt_utcnow = ''t'', rt_asctime = ''a'', rt_date = ''d'',
       rt_percent = (\<lambda>msg args. Inl (''TypeError'', ''not all arguments converted during string formatting'')) \<rparr>
            (\<lambda>i doc. Some (Exc ''ConnectionError'' ''Connection refused'')) \<lparr> r_name = ''app'', r_level = INFO, r_msg = ''hello'', r_args = [], r_exc_info = None,
       r_attrs = [(''timestamp'', PStr ''t0''), (''request_id'', PStr ''-''), (''user_id'', PStr ''-''),
       (''service'', PStr ''-''), (''environment'', PStr ''development'')] \<rparr> \<lparr> w_files = [], w_stdout = [], w_stderr = [], w_es_docs = [], w_records = [] \<rparr> = Inr w' \<and>
         w_stderr w' = [''Error sending log to Elasticsearch: Connection refused'' @ [CHR 0x0A]] \<and>
         w_es_docs w' = [] \<and> w_files w' = [] \<and> w_records w' = []) \<and>
   (lg_handlers (getLogger (loggers \<lparr> context_var =
         \<lparr> cv_default = Some \<lparr> timestamp = PStr ''t0'', request_id = PStr ''-'',
                               user_id = PStr ''-'', service = PStr ''-'',
                               environment = PStr ''development'', extra = PNone \<rparr>,
           cv_value = None \<rparr>,
       loggers = (\<lambda>n. None)(''app'' \<mapsto> \<lparr> lg_level = 10, lg_handlers =
         [file_handler ''var/logs'', json_handler ''var/logs'', console_handler,
          es_handler] \<rparr>),
       world = \<lparr> w_files = [], w_stdout = [], w_stderr = [], w_es_docs = [], w_records = [] \<rparr> \<rparr>) (fl_name \<lparr> fl_name = ''app'', fl_log_dir = ''var/logs'', fl_service_name = ''svc'',
       fl_environment = ''prod'', fl_elastic_config = None \<rparr>)) =
      [file_handler ''var/logs'', json_handler ''var/logs'', console_handler, es_handler] \<and>
    getEffectiveLevel (getLogger (loggers \<lparr> context_var =
         \<lparr> cv_default = Some \<lparr> timestamp = PStr ''t0'', request_id = PStr ''-'',
                               user_id = PStr ''-'', service = PStr ''-'',
                               environment = PStr ''development'', extra = PNone \<rparr>,
           cv_value = None \<rparr>,
       loggers = (\<lambda>n. None)(''app'' \<mapsto> \<lparr> lg_level = 10, lg_handlers =
         [file_handler ''var/logs'', json_handler ''var/logs'', console_handler,
          es_handler] \<rparr>),
       world = \<lparr> w_files = [], w_stdout = [], w_stderr = [], w_es_docs = [], w_records = [] \<rparr> \<rparr>) (fl_name \<lparr> fl_name = ''app'', fl_log_dir = ''var/logs'', fl_service_name = ''svc'',
       fl_environment = ''prod'', fl_elastic_config = None \<rparr>)) \<le> levelno INFO \<and>
    get_log_args None (context_var \<lparr> context_var =
         \<lparr> cv_default = Some \<lparr> timestamp = PStr ''t0'', request_id = PStr ''-'',
                               user_id = PStr ''-'', service = PStr ''-'',
                               environment = PStr ''development'', extra = PNone \<rparr>,
           cv_value = None \<rparr>,
       loggers = (\<lambda>n. None)(''app'' \<mapsto> \<lparr> lg_level = 10, lg_handlers =
         [file_handler ''var/logs'', json_handler ''var/logs'', console_handler,
          es_handler] \<rparr>),
       world = \<lparr> w_files = [], w_stdout = [], w_stderr = [], w_es_docs = [], w_records = [] \<rparr> \<rparr>) = Inr [(''timestamp'', PStr ''t0''), (''request_id'', PStr ''-''), (''user_id'', PStr ''-''),
       (''service'', PStr ''-''), (''environment'', PStr ''development'')] \<and>
    makeRecord (fl_name \<lparr> fl_name = ''app'', fl_log_dir = ''var/logs'', fl_service_name = ''svc'',
       fl_environment = ''prod'', fl_elastic_config = None \<rparr>) INFO ''hello'' [] None [(''timestamp'', PStr ''t0''), (''request_id'', PStr ''-''), (''user_id'', PStr ''-''),
       (''service'', PStr ''-''), (''environment'', PStr ''development'')] = Inr \<lparr> r_name = ''app'', r_level = INFO, r_msg = ''hello'', r_args = [], r_exc_info = None,
       r_attrs = [(''timestamp'', PStr ''t0''), (''request_id'', PStr ''-''), (''user_id'', PStr ''-''),
       (''service'', PStr ''-''), (''environment'', PStr ''development'')] \<rparr>) \<and>
   info \<lparr> fl_name = ''app'', fl_log_dir = ''var/logs'', fl_service_name = ''svc'',
       fl_environment = ''prod'', fl_elastic_config = None \<rparr> \<lparr> rt_utcnow = ''t'', rt_asctime = ''a'', rt_date = ''d'',
       rt_percent = (\<lambda>msg args. Inl (''TypeError'', ''not all arguments converted during string formatting'')) \<rparr> ''hello'' [] None False None \<lparr> context_var =
         \<lparr> cv_default = Some \<lparr> timestamp = PStr ''t0'', request_id = PStr ''-'',
                               user_id = PStr ''-'', service = PStr ''-'',
                               environment = PStr ''development'', extra = PNone \<rparr>,
           cv_value = None \<rparr>,
       loggers = (\<lambda>n. None)(''app'' \<mapsto> \<lparr> lg_level = 10, lg_handlers =
         [file_handler ''var/logs'', json_handler ''var/logs'', console_handler,
          es_handler] \<rparr>),
       world = \<lparr> w_files = [], w_stdout = [], w_stderr = [], w_es_docs = [], w_records = [] \<rparr> \<rparr> =
     Inr (\<lparr> context_var =
         \<lparr> cv_default = Some \<lparr> timestamp = PStr ''t0'', request_id = PStr ''-'',
                               user_id = PStr ''-'', service = PStr ''-'',
                               environment = PStr ''development'', extra = PNone \<rparr>,
           cv_value = None \<rparr>,
       loggers = (\<lambda>n. None)(''app'' \<mapsto> \<lparr> lg_level = 10, lg_handlers =
         [file_handler ''var/logs'', json_handler ''var/logs'', console_handler,
          es_handler] \<rparr>),
       world = \<lparr> w_files = [], w_stdout = [], w_stderr = [], w_es_docs = [], w_records = [] \<rparr> \<rparr>\<lparr>world :=
       Handler_handle \<lparr> rt_utcnow = ''t'', rt_asctime = ''a'', rt_date = ''d'',
       rt_percent = (\<lambda>msg args. Inl (''TypeError'', ''not all arguments converted during string formatting'')) \<rparr> \<lparr> r_name = ''app'', r_level = INFO, r_msg = ''hello'', r_args = [], r_exc_info = None,
       r_attrs = [(''timestamp'', PStr ''t0''), (''request_id'', PStr ''-''), (''user_id'', PStr ''-''),
       (''service'', PStr ''-''), (''environment'', PStr ''development'')] \<rparr> console_handler
         (Handler_handle \<lparr> rt_utcnow = ''t'', rt_asctime = ''a'', rt_date = ''d'',
       rt_percent = (\<lambda>msg args. Inl (''TypeError'', ''not all arguments converted during string formatting'')) \<rparr> \<lparr> r_name = ''app'', r_level = INFO, r_msg = ''hello'', r_args = [], r_exc_info = None,
       r_attrs = [(''timestamp'', PStr ''t0''), (''request_id'', PStr ''-''), (''user_id'', PStr ''-''),
       (''service'', PStr ''-''), (''environment'', PStr ''development'')] \<rparr> (json_handler ''var/logs'')
           (Handler_handle \<lparr> rt_utcnow = ''t'', rt_asctime = ''a'', rt_date = ''d'',
       rt_percent = (\<lambda>msg args. Inl (''TypeError'', ''not all arguments converted during string formatting'')) \<rparr> \<lparr> r_name = ''app'', r_level = INFO, r_msg = ''hello'', r_args = [], r_exc_info = None,
       r_attrs = [(''timestamp'', PStr ''t0''), (''request_id'', PStr ''-''), (''user_id'', PStr ''-''),
       (''service'', PStr ''-''), (''environment'', PStr ''development'')] \<rparr> (file_handler ''var/logs'')
             ((world \<lparr> context_var =
         \<lparr> cv_default = Some \<lparr> timestamp = PStr ''t0'', request_id = PStr ''-'',
                               user_id = PStr ''-'', service = PStr ''-'',
                               environment = PStr ''development'', extra = PNone \<rparr>,
           cv_value = None \<rparr>,
       loggers = (\<lambda>n. None)(''app'' \<mapsto> \<lparr> lg_level = 10, lg_handlers =
         [file_handler ''var/logs'', json_handler ''var/logs'', console_handler,
          es_handler] \<rparr>),
       world = \<lparr> w_files = [], w_stdout = [], w_stderr = [], w_es_docs = [], w_records = [] \<rparr> \<rparr>)\<lparr>w_records := w_records (world \<lparr> context_var =
         \<lparr> cv_default = Some \<lparr> timestamp = PStr ''t0'', request_id = PStr ''-'',
                               user_id = PStr ''-'', service = PStr ''-'',
                               environment = PStr ''development'', extra = PNone \<rparr>,
           cv_value = None \<rparr>,
       loggers = (\<lambda>n. None)(''app'' \<mapsto> \<lparr> lg_level = 10, lg_handlers =
         [file_handler ''var/logs'', json_handler ''var/logs'', console_handler,
          es_handler] \<rparr>),
       world = \<lparr> w_files = [], w_stdout = [], w_stderr = [], w_es_docs = [], w_records = [] \<rparr> \<rparr>) @ [\<lparr> r_name = ''app'', r_level = INFO, r_msg = ''hello'', r_args = [], r_exc_info = None,
       r_attrs = [(''timestamp'', PStr ''t0''), (''request_id'', PStr ''-''), (''user_id'', PStr ''-''),
       (''service'', PStr ''-''), (''environment'', PStr ''development'')] \<rparr>]\<rparr>)))\<rparr>)"
proof -
  let ?es = "\<lambda>(i::string) (doc::pydict). Some (Exc ''ConnectionError'' ''Connection refused'')"
  have h1: "\<forall>i doc. ?es i doc = Some (Exc ''ConnectionError'' ''Connection refused'')"
    by simp
  from remote_failure_is_contained
    [where es_index = ?es and c = "''ConnectionError''" and m = "''Connection refused''"
       and index_prefix = "''fastapi-logs''" and rt = "\<lparr> rt_utcnow = ''t'', rt_asctime = ''a'', rt_date = ''d'',
       rt_percent = (\<lambda>msg args. Inl (''TypeError'', ''not all arguments converted during string formatting'')) \<rparr>" and r = "\<lparr> r_name = ''app'', r_level = INFO, r_msg = ''hello'', r_args = [], r_exc_info = None,
       r_attrs = [(''timestamp'', PStr ''t0''), (''request_id'', PStr ''-''), (''user_id'', PStr ''-''),
       (''service'', PStr ''-''), (''environment'', PStr ''development'')] \<rparr>" and w = "\<lparr> w_files = [], w_stdout = [], w_stderr = [], w_es_docs = [], w_records = [] \<rparr>",
     THEN conjunct1, THEN mp, OF h1]
  have a: "\<exists>w'. ElasticsearchHandler_emit ''fastapi-logs'' \<lparr> rt_utcnow = ''t'', rt_asctime = ''a'', rt_date = ''d'',
       rt_percent = (\<lambda>msg args. Inl (''TypeError'', ''not all arguments converted during string formatting'')) \<rparr> ?es \<lparr> r_name = ''app'', r_level = INFO, r_msg = ''hello'', r_args = [], r_exc_info = None,
       r_attrs = [(''timestamp'', PStr ''t0''), (''request_id'', PStr ''-''), (''user_id'', PStr ''-''),
       (''service'', PStr ''-''), (''environment'', PStr ''development'')] \<rparr> \<lparr> w_files = [], w_stdout = [], w_stderr = [], w_es_docs = [], w_records = [] \<rparr> = Inr w' \<and>
         w_stderr w' = [''Error sending log to Elasticsearch: Connection refused'' @ [CHR 0x0A]] \<and>
         w_es_docs w' = [] \<and> w_files w' = [] \<and> w_records w' = []"
    by (simp add: getMessage_def)
  have h2: "lg_handlers (getLogger (loggers \<lparr> context_var =
         \<lparr> cv_default = Some \<lparr> timestamp = PStr ''t0'', request_id = PStr ''-'',
                               user_id = PStr ''-'', service = PStr ''-'',
                               environment = PStr ''development'', extra = PNone \<rparr>,
           cv_value = None \<rparr>,
       loggers = (\<lambda>n. None)(''app'' \<mapsto> \<lparr> lg_level = 10, lg_handlers =
         [file_handler ''var/logs'', json_handler ''var/logs'', console_handler,
          es_handler] \<rparr>),
       world = \<lparr> w_files = [], w_stdout = [], w_stderr = [], w_es_docs = [], w_records = [] \<rparr> \<rparr>) (fl_name \<lparr> fl_name = ''app'', fl_log_dir = ''var/logs'', fl_service_name = ''svc'',
       fl_environment = ''prod'', fl_elastic_config = None \<rparr>)) =
      [file_handler ''var/logs'', json_handler ''var/logs'', console_handler, es_handler] \<and>
    getEffectiveLevel (getLogger (loggers \<lparr> context_var =
         \<lparr> cv_default = Some \<lparr> timestamp = PStr ''t0'', request_id = PStr ''-'',
                               user_id = PStr ''-'', service = PStr ''-'',
                               environment = PStr ''development'', extra = PNone \<rparr>,
           cv_value = None \<rparr>,
       loggers = (\<lambda>n. None)(''app'' \<mapsto> \<lparr> lg_level = 10, lg_handlers =
         [file_handler ''var/logs'', json_handler ''var/logs'', console_handler,
          es_handler] \<rparr>),
       world = \<lparr> w_files = [], w_stdout = [], w_stderr = [], w_es_docs = [], w_records = [] \<rparr> \<rparr>) (fl_name \<lparr> fl_name = ''app'', fl_log_dir = ''var/logs'', fl_service_name = ''svc'',
       fl_environment = ''prod'', fl_elastic_config = None \<rparr>)) \<le> levelno INFO \<and>
    get_log_args None (context_var \<lparr> context_var =
         \<lparr> cv_default = Some \<lparr> timestamp = PStr ''t0'', request_id = PStr ''-'',
                               user_id = PStr ''-'', service = PStr ''-'',
                               environment = PStr ''development'', extra = PNone \<rparr>,
           cv_value = None \<rparr>,
       loggers = (\<lambda>n. None)(''app'' \<mapsto> \<lparr> lg_level = 10, lg_handlers =
         [file_handler ''var/logs'', json_handler ''var/logs'', console_handler,
          es_handler] \<rparr>),
       world = \<lparr> w_files = [], w_stdout = [], w_stderr = [], w_es_docs = [], w_records = [] \<rparr> \<rparr>) = Inr [(''timestamp'', PStr ''t0''), (''request_id'', PStr ''-''), (''user_id'', PStr ''-''),
       (''service'', PStr ''-''), (''environment'', PStr ''development'')] \<and>
    makeRecord (fl_name \<lparr> fl_name = ''app'', fl_log_dir = ''var/logs'', fl_service_name = ''svc'',
       fl_environment = ''prod'', fl_elastic_config = None \<rparr>) INFO ''hello'' [] None [(''timestamp'', PStr ''t0''), (''request_id'', PStr ''-''), (''user_id'', PStr ''-''),
       (''service'', PStr ''-''), (''environment'', PStr ''development'')] = Inr \<lparr> r_name = ''app'', r_level = INFO, r_msg = ''hello'', r_args = [], r_exc_info = None,
       r_attrs = [(''timestamp'', PStr ''t0''), (''request_id'', PStr ''-''), (''user_id'', PStr ''-''),
       (''service'', PStr ''-''), (''environment'', PStr ''development'')] \<rparr>"
    by (simp add: getLogger_def getEffectiveLevel_def get_log_args_def ContextVar_get_def
          as_dict_def asdict_def dict_update_def makeRecord_def keys_def LogRecord_builtin_def)
  have b: "info \<lparr> fl_name = ''app'', fl_log_dir = ''var/logs'', fl_service_name = ''svc'',
       fl_environment = ''prod'', fl_elastic_config = None \<rparr> \<lparr> rt_utcnow = ''t'', rt_asctime = ''a'', rt_date = ''d'',
       rt_percent = (\<lambda>msg args. Inl (''TypeError'', ''not all arguments converted during string formatting'')) \<rparr> ''hello'' [] None False None \<lparr> context_var =
         \<lparr> cv_default = Some \<lparr> timestamp = PStr ''t0'', request_id = PStr ''-'',
                               user_id = PStr ''-'', service = PStr ''-'',
                               environment = PStr ''development'', extra = PNone \<rparr>,
           cv_value = None \<rparr>,
       loggers = (\<lambda>n. None)(''app'' \<mapsto> \<lparr> lg_level = 10, lg_handlers =
         [file_handler ''var/logs'', json_handler ''var/logs'', console_handler,
          es_handler] \<rparr>),
       world = \<lparr> w_files = [], w_stdout = [], w_stderr = [], w_es_docs = [], w_records = [] \<rparr> \<rparr> =
     Inr (\<lparr> context_var =
         \<lparr> cv_default = Some \<lparr> timestamp = PStr ''t0'', request_id = PStr ''-'',
                               user_id = PStr ''-'', service = PStr ''-'',
                               environment = PStr ''development'', extra = PNone \<rparr>,
           cv_value = None \<rparr>,
       loggers = (\<lambda>n. None)(''app'' \<mapsto> \<lparr> lg_level = 10, lg_handlers =
         [file_handler ''var/logs'', json_handler ''var/logs'', console_handler,
          es_handler] \<rparr>),
       world = \<lparr> w_files = [], w_stdout = [], w_stderr = [], w_es_docs = [], w_records = [] \<rparr> \<rparr>\<lparr>world :=
       Handler_handle \<lparr> rt_utcnow = ''t'', rt_asctime = ''a'', rt_date = ''d'',
       rt_percent = (\<lambda>msg args. Inl (''TypeError'', ''not all arguments converted during string formatting'')) \<rparr> \<lparr> r_name = ''app'', r_level = INFO, r_msg = ''hello'', r_args = [], r_exc_info = None,
       r_attrs = [(''timestamp'', PStr ''t0''), (''request_id'', PStr ''-''), (''user_id'', PStr ''-''),
       (''service'', PStr ''-''), (''environment'', PStr ''development'')] \<rparr> console_handler
         (Handler_handle \<lparr> rt_utcnow = ''t'', rt_asctime = ''a'', rt_date = ''d'',
       rt_percent = (\<lambda>msg args. Inl (''TypeError'', ''not all arguments converted during string formatting'')) \<rparr> \<lparr> r_name = ''app'', r_level = INFO, r_msg = ''hello'', r_args = [], r_exc_info = None,
       r_attrs = [(''timestamp'', PStr ''t0''), (''request_id'', PStr ''-''), (''user_id'', PStr ''-''),
       (''service'', PStr ''-''), (''environment'', PStr ''development'')] \<rparr> (json_handler ''var/logs'')
           (Handler_handle \<lparr> rt_utcnow = ''t'', rt_asctime = ''a'', rt_date = ''d'',
       rt_percent = (\<lambda>msg args. Inl (''TypeError'', ''not all arguments converted during string formatting'')) \<rparr> \<lparr> r_name = ''app'', r_level = INFO, r_msg = ''hello'', r_args = [], r_exc_info = None,
       r_attrs = [(''timestamp'', PStr ''t0''), (''request_id'', PStr ''-''), (''user_id'', PStr ''-''),
       (''service'', PStr ''-''), (''environment'', PStr ''development'')] \<rparr> (file_handler ''var/logs'')
             ((world \<lparr> context_var =
         \<lparr> cv_default = Some \<lparr> timestamp = PStr ''t0'', request_id = PStr ''-'',
                               user_id = PStr ''-'', service = PStr ''-'',
                               environment = PStr ''development'', extra = PNone \<rparr>,
           cv_value = None \<rparr>,
       loggers = (\<lambda>n. None)(''app'' \<mapsto> \<lparr> lg_level = 10, lg_handlers =
         [file_handler ''var/logs'', json_handler ''var/logs'', console_handler,
          es_handler] \<rparr>),
       world = \<lparr> w_files = [], w_stdout = [], w_stderr = [], w_es_docs = [], w_records = [] \<rparr> \<rparr>)\<lparr>w_records := w_records (world \<lparr> context_var =
         \<lparr> cv_default = Some \<lparr> timestamp = PStr ''t0'', request_id = PStr ''-'',
                               user_id = PStr ''-'', service = PStr ''-'',
                               environment = PStr ''development'', extra = PNone \<rparr>,
           cv_value = None \<rparr>,
       loggers = (\<lambda>n. None)(''app'' \<mapsto> \<lparr> lg_level = 10, lg_handlers =
         [file_handler ''var/logs'', json_handler ''var/logs'', console_handler,
          es_handler] \<rparr>),
       world = \<lparr> w_files = [], w_stdout = [], w_stderr = [], w_es_docs = [], w_records = [] \<rparr> \<rparr>) @ [\<lparr> r_name = ''app'', r_level = INFO, r_msg = ''hello'', r_args = [], r_exc_info = None,
       r_attrs = [(''timestamp'', PStr ''t0''), (''request_id'', PStr ''-''), (''user_id'', PStr ''-''),
       (''service'', PStr ''-''), (''environment'', PStr ''development'')] \<rparr>]\<rparr>)))\<rparr>)"
    by (rule remote_failure_is_contained
          [where r = "\<lparr> r_name = ''app'', r_level = INFO, r_msg = ''hello'', r_args = [], r_exc_info = None,
       r_attrs = [(''timestamp'', PStr ''t0''), (''request_id'', PStr ''-''), (''user_id'', PStr ''-''),
       (''service'', PStr ''-''), (''environment'', PStr ''development'')] \<rparr>" and w = "\<lparr> w_files = [], w_stdout = [], w_stderr = [], w_es_docs = [], w_records = [] \<rparr>" and rt = "\<lparr> rt_utcnow = ''t'', rt_asctime = ''a'', rt_date = ''d'',
       rt_percent = (\<lambda>msg args. Inl (''TypeError'', ''not all arguments converted during string formatting'')) \<rparr>" and es_index = ?es,
           THEN conjunct2, THEN conjunct2, THEN mp, OF h2])
  show ?thesis
    apply (rule conjI, rule h1)
    apply (rule conjI, rule a)
    apply (rule conjI, rule h2)
    apply (rule b)
    done
qed

subsection \<open>Further facts\<close>

text \<open>Every exception of a formatter is derived from \<open>Exception\<close>, so the handlers'
  \<open>except Exception\<close> catches all of them.\<close>

lemma py_update_raises_Exception:
  "py_update d v = Inl e \<Longrightarrow> \<exists>c m. e = Exc c m"
  by (cases "(d, v)" rule: py_update.cases) (auto simp: ValueError_def TypeError_def)

lemma Formatter_format_raises_Exception:
  assumes "Formatter_format f rt r = Inl e"
  shows "\<exists>c m. e = Exc c m"
proof (cases f)
  case LineFormatter
  with assms show ?thesis
    by (auto simp: LineFormatter_format_def attr_def ValueError_def
          dest: getMessage_raises_Exception split: sum.splits option.splits)
next
  case JsonFormatter
  with assms show ?thesis
    by (auto simp: JsonFormatter_format_def Let_def json_dumps_def TypeError_def
          dest: py_update_raises_Exception getMessage_raises_Exception
          split: sum.splits option.splits if_splits)
qed

text \<open>A constructed facade has its logger enabled from DEBUG upwards, and with a
  remote configuration \<open>_setup_elasticsearch\<close> puts the remote handler after the
  three local sinks.\<close>

lemma FastAPILogger_init_enabled:
  assumes "FastAPILogger_init fs name log_dir ec sn env reg = Inr (self, reg')"
  shows "getEffectiveLevel (getLogger reg' (fl_name self)) \<le> levelno DEBUG"
  using configure_logger_handlers(2) [OF FastAPILogger_init_configure [OF assms, THEN conjunct1]]
  by (simp add: getEffectiveLevel_def)

lemma setup_elasticsearch_handlers:
  assumes init: "FastAPILogger_init fs name log_dir (Some cfg) sn env reg = Inr (self, reg')"
    and cfg: "cfg \<noteq> []"
    and fresh: "lg_handlers (getLogger reg (fl_name self)) = []"
  shows "lg_handlers (getLogger
           (loggers (setup_elasticsearch self \<lparr> context_var = cv, loggers = reg', world = w \<rparr>))
           (fl_name self)) =
         [file_handler log_dir, json_handler log_dir, console_handler, es_handler]"
proof -
  from FastAPILogger_init_configure [OF init]
  have c: "configure_logger fs self reg = Inr reg'" and d: "fl_log_dir self = log_dir"
    by simp_all
  from init have ec: "fl_elastic_config self = Some cfg"
    by (auto simp: FastAPILogger_init_def Let_def split: sum.splits)
  from configure_logger_handlers(1) [OF c] fresh d
  have "lg_handlers (getLogger reg' (fl_name self)) =
          [file_handler log_dir, json_handler log_dir, console_handler]"
    by simp
  then show ?thesis
    using cfg ec by (simp add: setup_elasticsearch_def Let_def getLogger_def)
qed

text \<open>A DEBUG record leaves the files as they are and reaches the standard output
  when its line can be formatted.\<close>

lemma debug_record_files_unchanged:
  assumes "r_level r = DEBUG"
  shows "w_files (callHandlers rt r [file_handler d, json_handler d, console_handler] w)
           = w_files w"
  using assms
  by (simp add: callHandlers_def file_handler_def json_handler_def console_handler_def
        Handler_handle_def handleError_def split: sum.splits)

lemma debug_record_on_console:
  assumes "r_level r = DEBUG" and "LineFormatter_format rt r = Inr line"
  shows "w_stdout (callHandlers rt r [file_handler d, json_handler d, console_handler] w)
           = w_stdout w @ [line]"
  using assms
  by (simp add: callHandlers_def file_handler_def json_handler_def console_handler_def
        Handler_handle_def)

text \<open>Parsing gives back what was serialised, and the dictionary form of a context
  holds no \<open>None\<close>.\<close>

lemma json_loads_dumps: "json_dumps v = Inr s \<Longrightarrow> json_loads s = v"
  by (auto simp: json_dumps_def split: if_splits)

lemma as_dict_no_None: "(k, v) \<in> set (as_dict c) \<Longrightarrow> v \<noteq> PNone"
  by (auto simp: as_dict_def)

end
